theory Spec2Isabelle
  imports Main
begin

section \<open>Values, errors and the interpreter's arithmetic\<close>

text \<open>
  \<^verbatim>\<open>calc_m1.py\<close> computes with Python numbers: the tokenizer produces \<^verbatim>\<open>int\<close> and
  \<^verbatim>\<open>float\<close> objects, and \<^verbatim>\<open>**\<close> on a negative base with a fractional exponent produces
  a \<^verbatim>\<open>complex\<close> one. Integers are unbounded (\<open>int\<close>). The payload of a float and of a
  complex number is left abstract (\<open>'f\<close>, \<open>'c\<close>): the program only ever asks of
  which kind a number is and whether it equals zero.
\<close>

datatype ('f, 'c) pyval = IntV int | FloatV 'f | ComplexV 'c

text \<open>The built-in exceptions that Python's own arithmetic raises.\<close>

datatype builtin_exc = ZeroDivisionError | OverflowError

text \<open>
  One constructor per \<^verbatim>\<open>raise\<close> statement of the module; the position or text that the
  f-string of the message interpolates is kept where it is a plain number or string.
\<close>

datatype parse_msg =
    ExpectedTokenKind string
  | ExpectedToken string
  | DigitExpectedAfterPoint nat
  | InvalidNumber string
  | InvalidCharacter char nat
  | ExpectedNumberOrParen
  | UnknownMulOperator string
  | TrailingCharacters

datatype eval_msg = DivisionByZero | FloorDivIntegersOnly | ModIntegersOnly

text \<open>
  An outcome of a call is a value or one exception: the module's own \<^verbatim>\<open>ParseError\<close> and
  \<^verbatim>\<open>EvalError\<close>, or a built-in exception that no handler of the module catches.
\<close>

datatype error = ParseError parse_msg | EvalError eval_msg | Uncaught builtin_exc

datatype arith_op = Add | Sub | Mul | TrueDiv | Pow

text \<open>
  The arithmetic of the interpreter on floats and complex numbers is not code of this
  module; it is a parameter of the model. Each field stands for one primitive of
  CPython and has the type of what that primitive can do:
  \<^item> \<open>int_max_str_digits\<close>: the value of \<^verbatim>\<open>sys.get_int_max_str_digits()\<close>, \<open>0\<close> for no limit;
  \<^item> \<open>float_of_decimal\<close>: \<^verbatim>\<open>float(s)\<close> for \<open>s\<close> of the form digits, point, digits;
  \<^item> \<open>float_of_int\<close>: conversion of an \<^verbatim>\<open>int\<close> operand, \<open>None\<close> for \<^verbatim>\<open>OverflowError\<close>;
  \<^item> \<open>float_is_zero\<close>: \<^verbatim>\<open>x == 0\<close>;
  \<^item> \<open>float_neg\<close>, \<open>float_add\<close>, \<open>float_sub\<close>, \<open>float_mul\<close>: never raise;
  \<^item> \<open>float_truediv\<close>: float division by a divisor that is not zero, never raises;
  \<^item> \<open>int_truediv\<close>: \<^verbatim>\<open>a / b\<close> on two \<^verbatim>\<open>int\<close>s with \<open>b \<noteq> 0\<close>, \<open>None\<close> for
    \<^verbatim>\<open>OverflowError\<close>;
  \<^item> \<open>float_pow\<close>: \<^verbatim>\<open>x ** y\<close> on floats: a float, a complex number, or an exception;
  \<^item> \<open>complex_is_zero\<close>, \<open>complex_neg\<close>;
  \<^item> \<open>complex_arith\<close>: a binary operation with at least one complex operand.
\<close>

record ('f, 'c) runtime =
  int_max_str_digits :: nat
  float_of_decimal :: "string \<Rightarrow> 'f"
  float_of_int :: "int \<Rightarrow> 'f option"
  float_is_zero :: "'f \<Rightarrow> bool"
  float_neg :: "'f \<Rightarrow> 'f"
  float_add :: "'f \<Rightarrow> 'f \<Rightarrow> 'f"
  float_sub :: "'f \<Rightarrow> 'f \<Rightarrow> 'f"
  float_mul :: "'f \<Rightarrow> 'f \<Rightarrow> 'f"
  float_truediv :: "'f \<Rightarrow> 'f \<Rightarrow> 'f"
  int_truediv :: "int \<Rightarrow> int \<Rightarrow> 'f option"
  float_pow :: "'f \<Rightarrow> 'f \<Rightarrow> builtin_exc + ('f + 'c)"
  complex_is_zero :: "'c \<Rightarrow> bool"
  complex_neg :: "'c \<Rightarrow> 'c"
  complex_arith :: "arith_op \<Rightarrow> ('f, 'c) pyval \<Rightarrow> ('f, 'c) pyval \<Rightarrow> builtin_exc + 'c"

fun is_int :: "('f, 'c) pyval \<Rightarrow> bool" where
  "is_int (IntV i) = True"
| "is_int (FloatV x) = False"
| "is_int (ComplexV z) = False"

fun is_float :: "('f, 'c) pyval \<Rightarrow> bool" where
  "is_float (IntV i) = False"
| "is_float (FloatV x) = True"
| "is_float (ComplexV z) = False"


text \<open>\<^verbatim>\<open>b == 0\<close>\<close>

fun py_is_zero :: "('f, 'c) runtime \<Rightarrow> ('f, 'c) pyval \<Rightarrow> bool" where
  "py_is_zero rt (IntV i) = (i = 0)"
| "py_is_zero rt (FloatV x) = float_is_zero rt x"
| "py_is_zero rt (ComplexV z) = complex_is_zero rt z"

text \<open>Unary \<^verbatim>\<open>+x\<close> and \<^verbatim>\<open>-x\<close>: no exception on a number.\<close>

fun py_pos :: "('f, 'c) runtime \<Rightarrow> ('f, 'c) pyval \<Rightarrow> ('f, 'c) pyval" where
  "py_pos rt v = v"

fun py_neg :: "('f, 'c) runtime \<Rightarrow> ('f, 'c) pyval \<Rightarrow> ('f, 'c) pyval" where
  "py_neg rt (IntV i) = IntV (- i)"
| "py_neg rt (FloatV x) = FloatV (float_neg rt x)"
| "py_neg rt (ComplexV z) = ComplexV (complex_neg rt z)"

text \<open>
  An \<^verbatim>\<open>int\<close> operand that meets a float operand is converted to a float first, which
  raises \<^verbatim>\<open>OverflowError\<close> when it is too large.
\<close>

fun as_float :: "('f, 'c) runtime \<Rightarrow> int \<Rightarrow> error + 'f" where
  "as_float rt i =
     (case float_of_int rt i of None \<Rightarrow> Inl (Uncaught OverflowError) | Some x \<Rightarrow> Inr x)"

fun lift_complex :: "builtin_exc + 'c \<Rightarrow> error + ('f, 'c) pyval" where
  "lift_complex (Inl e) = Inl (Uncaught e)"
| "lift_complex (Inr z) = Inr (ComplexV z)"

text \<open>
  \<^verbatim>\<open>a + b\<close>, \<^verbatim>\<open>a - b\<close>, \<^verbatim>\<open>a * b\<close>: on two \<^verbatim>\<open>int\<close>s the exact integer operation
  \<open>iop\<close>; with a complex operand the complex operation; otherwise the float operation
  \<open>fop\<close> after conversion of an \<^verbatim>\<open>int\<close> operand.
\<close>

fun py_arith ::
  "('f, 'c) runtime \<Rightarrow> arith_op \<Rightarrow> (int \<Rightarrow> int \<Rightarrow> int) \<Rightarrow> ('f \<Rightarrow> 'f \<Rightarrow> 'f) \<Rightarrow>
   ('f, 'c) pyval \<Rightarrow> ('f, 'c) pyval \<Rightarrow> error + ('f, 'c) pyval" where
  "py_arith rt opr iop fop (IntV a) (IntV b) = Inr (IntV (iop a b))"
| "py_arith rt opr iop fop (IntV a) (FloatV y) =
     (case as_float rt a of Inl e \<Rightarrow> Inl e | Inr x \<Rightarrow> Inr (FloatV (fop x y)))"
| "py_arith rt opr iop fop (FloatV x) (IntV b) =
     (case as_float rt b of Inl e \<Rightarrow> Inl e | Inr y \<Rightarrow> Inr (FloatV (fop x y)))"
| "py_arith rt opr iop fop (FloatV x) (FloatV y) = Inr (FloatV (fop x y))"
| "py_arith rt opr iop fop a b = lift_complex (complex_arith rt opr a b)"

definition py_add ::
  "('f, 'c) runtime \<Rightarrow> ('f, 'c) pyval \<Rightarrow> ('f, 'c) pyval \<Rightarrow> error + ('f, 'c) pyval" where
  "py_add rt a b = py_arith rt Add (\<lambda>x y. x + y) (float_add rt) a b"

definition py_sub ::
  "('f, 'c) runtime \<Rightarrow> ('f, 'c) pyval \<Rightarrow> ('f, 'c) pyval \<Rightarrow> error + ('f, 'c) pyval" where
  "py_sub rt a b = py_arith rt Sub (\<lambda>x y. x - y) (float_sub rt) a b"

definition py_mul ::
  "('f, 'c) runtime \<Rightarrow> ('f, 'c) pyval \<Rightarrow> ('f, 'c) pyval \<Rightarrow> error + ('f, 'c) pyval" where
  "py_mul rt a b = py_arith rt Mul (\<lambda>x y. x * y) (float_mul rt) a b"

text \<open>
  \<^verbatim>\<open>a / b\<close>: \<^verbatim>\<open>ZeroDivisionError\<close> on a zero divisor; on two \<^verbatim>\<open>int\<close>s the correctly
  rounded quotient as a float, or \<^verbatim>\<open>OverflowError\<close> when it is out of range.
\<close>

fun py_truediv ::
  "('f, 'c) runtime \<Rightarrow> ('f, 'c) pyval \<Rightarrow> ('f, 'c) pyval \<Rightarrow> error + ('f, 'c) pyval" where
  "py_truediv rt a b =
     (if py_is_zero rt b then Inl (Uncaught ZeroDivisionError)
      else case (a, b) of
        (IntV x, IntV y) \<Rightarrow>
          (case int_truediv rt x y of
             None \<Rightarrow> Inl (Uncaught OverflowError)
           | Some q \<Rightarrow> Inr (FloatV q))
      | (IntV x, FloatV y) \<Rightarrow>
          (case as_float rt x of Inl e \<Rightarrow> Inl e | Inr x' \<Rightarrow> Inr (FloatV (float_truediv rt x' y)))
      | (FloatV x, IntV y) \<Rightarrow>
          (case as_float rt y of Inl e \<Rightarrow> Inl e | Inr y' \<Rightarrow> Inr (FloatV (float_truediv rt x y')))
      | (FloatV x, FloatV y) \<Rightarrow> Inr (FloatV (float_truediv rt x y))
      | _ \<Rightarrow> lift_complex (complex_arith rt TrueDiv a b))"

text \<open>
  \<^verbatim>\<open>a // b\<close> and \<^verbatim>\<open>a % b\<close> on two \<^verbatim>\<open>int\<close>s, the only operands the module applies them
  to: quotient rounded towards minus infinity and the matching remainder, which are
  \<open>div\<close> and \<open>mod\<close> on \<open>int\<close>; \<^verbatim>\<open>ZeroDivisionError\<close> on a zero divisor.
\<close>

fun py_floordiv :: "int \<Rightarrow> int \<Rightarrow> error + ('f, 'c) pyval" where
  "py_floordiv a b = (if b = 0 then Inl (Uncaught ZeroDivisionError) else Inr (IntV (a div b)))"

fun py_mod :: "int \<Rightarrow> int \<Rightarrow> error + ('f, 'c) pyval" where
  "py_mod a b = (if b = 0 then Inl (Uncaught ZeroDivisionError) else Inr (IntV (a mod b)))"

text \<open>
  \<^verbatim>\<open>a ** b\<close>. On two \<^verbatim>\<open>int\<close>s with \<open>b \<ge> 0\<close> the exact integer power. On two \<^verbatim>\<open>int\<close>s
  with \<open>b < 0\<close> CPython converts both to floats and calls the float power. The float
  power returns a float or a complex number, or raises.
\<close>

fun lift_pow :: "builtin_exc + ('f + 'c) \<Rightarrow> error + ('f, 'c) pyval" where
  "lift_pow (Inl e) = Inl (Uncaught e)"
| "lift_pow (Inr (Inl x)) = Inr (FloatV x)"
| "lift_pow (Inr (Inr z)) = Inr (ComplexV z)"

fun py_float_pow ::
  "('f, 'c) runtime \<Rightarrow> error + 'f \<Rightarrow> error + 'f \<Rightarrow> error + ('f, 'c) pyval" where
  "py_float_pow rt (Inl e) y = Inl e"
| "py_float_pow rt (Inr x) (Inl e) = Inl e"
| "py_float_pow rt (Inr x) (Inr y) = lift_pow (float_pow rt x y)"

fun py_pow ::
  "('f, 'c) runtime \<Rightarrow> ('f, 'c) pyval \<Rightarrow> ('f, 'c) pyval \<Rightarrow> error + ('f, 'c) pyval" where
  "py_pow rt (IntV a) (IntV b) =
     (if 0 \<le> b then Inr (IntV (a ^ nat b))
      else py_float_pow rt (as_float rt a) (as_float rt b))"
| "py_pow rt (IntV a) (FloatV y) = py_float_pow rt (as_float rt a) (Inr y)"
| "py_pow rt (FloatV x) (IntV b) = py_float_pow rt (Inr x) (as_float rt b)"
| "py_pow rt (FloatV x) (FloatV y) = py_float_pow rt (Inr x) (Inr y)"
| "py_pow rt a b = lift_complex (complex_arith rt Pow a b)"

section \<open>Tokens and the token stream\<close>

text \<open>
  A token is a tuple \<^verbatim>\<open>(kind, value)\<close> with the kinds \<^verbatim>\<open>'NUM'\<close>, \<^verbatim>\<open>'OP'\<close>, \<^verbatim>\<open>'LPAREN'\<close>,
  \<^verbatim>\<open>'RPAREN'\<close> and \<^verbatim>\<open>'EOF'\<close>.
\<close>

datatype ('f, 'c) token = NUM "('f, 'c) pyval" | OP string | LPAREN | RPAREN | EOF

text \<open>\<^verbatim>\<open>tok[0]\<close>\<close>

fun kind_of :: "('f, 'c) token \<Rightarrow> string" where
  "kind_of (NUM v) = ''NUM''"
| "kind_of (OP s) = ''OP''"
| "kind_of LPAREN = ''LPAREN''"
| "kind_of RPAREN = ''RPAREN''"
| "kind_of EOF = ''EOF''"

text \<open>\<^verbatim>\<open>tok[1] == value\<close> for a string \<^verbatim>\<open>value\<close>: a number and \<^verbatim>\<open>None\<close> equal no string.\<close>

fun payload_is :: "('f, 'c) token \<Rightarrow> string \<Rightarrow> bool" where
  "payload_is (NUM v) s = False"
| "payload_is (OP t) s = (t = s)"
| "payload_is LPAREN s = (s = ''('')"
| "payload_is RPAREN s = (s = '')'')"
| "payload_is EOF s = False"

record ('f, 'c) TokenStream =
  tokens :: "('f, 'c) token list"
  pos :: nat

definition peek :: "('f, 'c) TokenStream \<Rightarrow> ('f, 'c) token" where
  "peek ts = (if pos ts < length (tokens ts) then tokens ts ! pos ts else EOF)"

definition eat ::
  "('f, 'c) TokenStream \<Rightarrow> string \<Rightarrow> string option \<Rightarrow>
   error + (('f, 'c) token \<times> ('f, 'c) TokenStream)" where
  "eat ts kind val =
     (let tok = peek ts in
      if kind_of tok \<noteq> kind then Inl (ParseError (ExpectedTokenKind kind))
      else case val of
        None \<Rightarrow> Inr (tok, ts\<lparr>pos := pos ts + 1\<rparr>)
      | Some s \<Rightarrow>
          if \<not> payload_is tok s then Inl (ParseError (ExpectedToken s))
          else Inr (tok, ts\<lparr>pos := pos ts + 1\<rparr>))"

section \<open>The tokenizer\<close>

text \<open>
  The input is a Python \<^verbatim>\<open>str\<close>, a sequence of code points. It is modelled as a
  \<open>string\<close> whose characters are the code points below 256; \<open>isspace\<close>, \<open>isdigit\<close> and
  \<open>isdecimal\<close> are \<^verbatim>\<open>str.isspace\<close>, \<^verbatim>\<open>str.isdigit\<close> and \<^verbatim>\<open>str.isdecimal\<close> on that range.
  The superscripts U+00B2, U+00B3 and U+00B9 are digits to \<^verbatim>\<open>isdigit\<close>, but
  \<^verbatim>\<open>int\<close> and \<^verbatim>\<open>float\<close> accept decimal digits only.
\<close>

definition isspace :: "char \<Rightarrow> bool" where
  "isspace ch = ((of_char ch :: nat) \<in> {9, 10, 11, 12, 13, 28, 29, 30, 31, 32, 133, 160})"

definition isdecimal :: "char \<Rightarrow> bool" where
  "isdecimal ch = (48 \<le> (of_char ch :: nat) \<and> (of_char ch :: nat) \<le> 57)"

definition isdigit :: "char \<Rightarrow> bool" where
  "isdigit ch = (isdecimal ch \<or> (of_char ch :: nat) \<in> {178, 179, 185})"

text \<open>\<^verbatim>\<open>expression[start:stop]\<close> for \<open>start \<le> stop \<le> len(expression)\<close>\<close>

definition slice :: "string \<Rightarrow> nat \<Rightarrow> nat \<Rightarrow> string" where
  "slice expression start stop = take (stop - start) (drop start expression)"

text \<open>The value of a string of decimal digits.\<close>

definition decimal_value :: "string \<Rightarrow> nat" where
  "decimal_value s = foldl (\<lambda>acc ch. 10 * acc + (of_char ch - 48)) 0 s"

text \<open>
  \<^verbatim>\<open>int(num_str)\<close>: \<open>None\<close> stands for \<^verbatim>\<open>ValueError\<close>, raised on a character that is not a
  decimal digit and on more digits than the interpreter's limit allows. CPython
  applies the limit to strings of more than 640 digits only.
\<close>

definition py_int :: "('f, 'c) runtime \<Rightarrow> string \<Rightarrow> int option" where
  "py_int rt s =
     (if s \<noteq> [] \<and> list_all isdecimal s
         \<and> (length s \<le> 640 \<or> int_max_str_digits rt = 0 \<or> length s \<le> int_max_str_digits rt)
      then Some (int (decimal_value s)) else None)"

text \<open>
  \<^verbatim>\<open>float(num_str)\<close> for the strings the tokenizer passes (digits, a point, digits):
  \<open>None\<close> stands for \<^verbatim>\<open>ValueError\<close>, raised on a digit that is not decimal.
\<close>

definition py_float :: "('f, 'c) runtime \<Rightarrow> string \<Rightarrow> 'f option" where
  "py_float rt s =
     (if list_all (\<lambda>ch. isdecimal ch \<or> ch = CHR ''.'') s
      then Some (float_of_decimal rt s) else None)"

text \<open>\<^verbatim>\<open>while i < n and expression[i].isdigit(): i += 1\<close>\<close>

function scan_digits :: "string \<Rightarrow> nat \<Rightarrow> nat" where
  "scan_digits expression i =
     (if i < length expression \<and> isdigit (expression ! i)
      then scan_digits expression (i + 1) else i)"
  by pat_completeness auto
termination
  by (relation "measure (\<lambda>(expression, i). length expression - i)") auto

text \<open>
  One iteration of the \<^verbatim>\<open>while i < n\<close> loop of \<^verbatim>\<open>tokenize\<close>, entered with \<open>i < n\<close>: the
  token it appends, if any, and the new value of \<open>i\<close>; or the exception it raises.
\<close>

definition scan_token ::
  "('f, 'c) runtime \<Rightarrow> string \<Rightarrow> nat \<Rightarrow> error + (('f, 'c) token option \<times> nat)" where
  "scan_token rt expression i =
     (let n = length expression; ch = expression ! i in
      if isspace ch then Inr (None, i + 1)
      else if isdigit ch then
        (let start = i; i1 = scan_digits expression i in
         if i1 < n \<and> expression ! i1 = CHR ''.'' then
           (if i1 + 1 \<ge> n \<or> \<not> isdigit (expression ! (i1 + 1))
            then Inl (ParseError (DigitExpectedAfterPoint i1))
            else
              (let i2 = scan_digits expression (i1 + 1);
                   num_str = slice expression start i2 in
               case py_float rt num_str of
                 None \<Rightarrow> Inl (ParseError (InvalidNumber num_str))
               | Some val \<Rightarrow> Inr (Some (NUM (FloatV val)), i2)))
         else
           (let num_str = slice expression start i1 in
            case py_int rt num_str of
              None \<Rightarrow> Inl (ParseError (InvalidNumber num_str))
            | Some val \<Rightarrow> Inr (Some (NUM (IntV val)), i1)))
      else if ch = CHR ''('' then Inr (Some LPAREN, i + 1)
      else if ch = CHR '')'' then Inr (Some RPAREN, i + 1)
      else if ch = CHR ''*'' then
        (if i + 1 < n \<and> expression ! (i + 1) = CHR ''*''
         then Inr (Some (OP ''**''), i + 2)
         else Inr (Some (OP ''*''), i + 1))
      else if ch = CHR ''/'' then
        (if i + 1 < n \<and> expression ! (i + 1) = CHR ''/''
         then Inr (Some (OP ''//''), i + 2)
         else Inr (Some (OP ''/''), i + 1))
      else if ch \<in> set ''+-%'' then Inr (Some (OP [ch]), i + 1)
      else Inl (ParseError (InvalidCharacter ch i)))"

text \<open>\<^verbatim>\<open>tokens.append(tok)\<close>, when the iteration produced a token.\<close>

fun append_token :: "'a list \<Rightarrow> 'a option \<Rightarrow> 'a list" where
  "append_token toks None = toks"
| "append_token toks (Some tok) = toks @ [tok]"

lemma scan_digits_ge: "i \<le> scan_digits expression i"
proof (induction expression i rule: scan_digits.induct)
  case (1 expression i)
  show ?case
  proof (cases "i < length expression \<and> isdigit (expression ! i)")
    case True
    with 1 have "i + 1 \<le> scan_digits expression (i + 1)" by simp
    moreover from True have "scan_digits expression i = scan_digits expression (i + 1)"
      by simp
    ultimately show ?thesis by simp
  next
    case False
    then show ?thesis by simp
  qed
qed

lemma scan_digits_gt:
  "i < length expression \<Longrightarrow> isdigit (expression ! i) \<Longrightarrow> i < scan_digits expression i"
proof -
  assume a: "i < length expression" "isdigit (expression ! i)"
  then have "scan_digits expression i = scan_digits expression (i + 1)" by simp
  moreover have "i + 1 \<le> scan_digits expression (i + 1)" by (rule scan_digits_ge)
  ultimately show ?thesis by simp
qed

lemma scan_digits_le: "i \<le> length expression \<Longrightarrow> scan_digits expression i \<le> length expression"
proof (induction expression i rule: scan_digits.induct)
  case (1 expression i)
  show ?case
  proof (cases "i < length expression \<and> isdigit (expression ! i)")
    case True
    then have "scan_digits expression i = scan_digits expression (i + 1)" by simp
    moreover from True 1 have "scan_digits expression (i + 1) \<le> length expression" by simp
    ultimately show ?thesis by simp
  next
    case False
    with 1 show ?thesis by simp
  qed
qed

declare scan_digits.simps [simp del]

lemma scan_token_advances:
  assumes "i < length expression" and "scan_token rt expression i = Inr (tok, j)"
  shows "i < j \<and> j \<le> length expression"
proof -
  have g: "isdigit (expression ! i) \<Longrightarrow> i < scan_digits expression i"
    using assms(1) by (rule scan_digits_gt)
  have l: "scan_digits expression i \<le> length expression"
    using assms(1) by (simp add: scan_digits_le)
  have g2: "i < scan_digits expression (scan_digits expression i + 1)"
    using scan_digits_ge [of i expression]
      scan_digits_ge [of "scan_digits expression i + 1" expression] by linarith
  have l2: "scan_digits expression i < length expression \<Longrightarrow>
      scan_digits expression (scan_digits expression i + 1) \<le> length expression"
    by (simp add: scan_digits_le)
  show ?thesis
    using assms g l g2 l2
    by (auto simp: scan_token_def Let_def split: if_splits option.splits)
qed

text \<open>
  The loop of \<^verbatim>\<open>tokenize\<close> from index \<open>i\<close> with the tokens collected so far, and
  \<^verbatim>\<open>tokenize\<close> itself, which appends the \<^verbatim>\<open>EOF\<close> token after the loop.
\<close>

function tokenize_loop ::
  "('f, 'c) runtime \<Rightarrow> string \<Rightarrow> nat \<Rightarrow> ('f, 'c) token list \<Rightarrow> error + ('f, 'c) token list" where
  "tokenize_loop rt expression i toks =
     (if i < length expression then
        (case scan_token rt expression i of
           Inl e \<Rightarrow> Inl e
         | Inr (tok, j) \<Rightarrow> tokenize_loop rt expression j (append_token toks tok))
      else Inr toks)"
  by pat_completeness auto
termination
proof (relation "measure (\<lambda>(rt, expression, i, toks). length expression - i)")
  show "wf (measure (\<lambda>(rt, expression, i, toks). length expression - i))" by simp
next
  fix rt :: "('f, 'c) runtime" and expression i and toks :: "('f, 'c) token list"
    and x2 x y
  assume "i < length expression" "scan_token rt expression i = Inr x2" "(x, y) = x2"
  then have "i < y \<and> y \<le> length expression"
    using scan_token_advances [of i expression rt x y] by simp
  then show "((rt, expression, y, append_token toks x), rt, expression, i, toks)
      \<in> measure (\<lambda>(rt, expression, i, toks). length expression - i)"
    by auto
qed

definition tokenize :: "('f, 'c) runtime \<Rightarrow> string \<Rightarrow> error + ('f, 'c) token list" where
  "tokenize rt expression =
     (case tokenize_loop rt expression 0 [] of
        Inl e \<Rightarrow> Inl e
      | Inr toks \<Rightarrow> Inr (toks @ [EOF]))"

section \<open>The recursive-descent evaluator\<close>

text \<open>
  \<^verbatim>\<open>_apply_mul_op\<close>: the zero test comes first; \<^verbatim>\<open>//\<close> and \<^verbatim>\<open>%\<close> are applied to two
  \<^verbatim>\<open>int\<close>s only (\<^verbatim>\<open>isinstance(a, int) and isinstance(b, int)\<close>).
\<close>

definition apply_mul_op ::
  "('f, 'c) runtime \<Rightarrow> string \<Rightarrow> ('f, 'c) pyval \<Rightarrow> ('f, 'c) pyval \<Rightarrow> error + ('f, 'c) pyval" where
  "apply_mul_op rt opr a b =
     (if opr \<in> set [''/'', ''//'', ''%''] \<and> py_is_zero rt b then Inl (EvalError DivisionByZero)
      else if opr = ''*'' then py_mul rt a b
      else if opr = ''/'' then py_truediv rt a b
      else if opr = ''//'' then
        (case (a, b) of
           (IntV x, IntV y) \<Rightarrow> py_floordiv x y
         | _ \<Rightarrow> Inl (EvalError FloorDivIntegersOnly))
      else if opr = ''%'' then
        (case (a, b) of
           (IntV x, IntV y) \<Rightarrow> py_mod x y
         | _ \<Rightarrow> Inl (EvalError ModIntegersOnly))
      else Inl (ParseError (UnknownMulOperator opr)))"

text \<open>
  The number of tokens from the cursor to the end of the list, and what every grammar
  rule does to the stream it is given: the token list is the same and the cursor has
  not moved back.
\<close>

definition remaining :: "('f, 'c) TokenStream \<Rightarrow> nat" where
  "remaining ts = length (tokens ts) - pos ts"

fun advances ::
  "('f, 'c) TokenStream \<Rightarrow> error + ('a \<times> ('f, 'c) TokenStream) \<Rightarrow> bool" where
  "advances ts (Inl e) = True"
| "advances ts (Inr (v, ts')) = (tokens ts' = tokens ts \<and> pos ts \<le> pos ts')"

lemma eat_advances:
  assumes "eat ts kind val = Inr (tok, ts')" and "kind \<noteq> ''EOF''"
  shows "tokens ts' = tokens ts \<and> pos ts' = pos ts + 1 \<and> pos ts < length (tokens ts)"
proof -
  from assms have k: "kind_of (peek ts) = kind" and t: "ts' = ts\<lparr>pos := pos ts + 1\<rparr>"
    by (auto simp: eat_def Let_def split: if_splits option.splits)
  from k assms(2) have "peek ts \<noteq> EOF" by auto
  then have "pos ts < length (tokens ts)" by (auto simp: peek_def split: if_splits)
  with t show ?thesis by simp
qed

lemma advances_trans:
  "tokens ts1 = tokens ts \<Longrightarrow> pos ts \<le> pos ts1 \<Longrightarrow> advances ts1 r \<Longrightarrow> advances ts r"
  by (cases r) auto

lemma advances_eat: "advances ts (eat ts kind val)"
  by (auto simp: eat_def Let_def split: option.splits)

lemma advances_bind:
  assumes "advances ts r" and "\<And>v ts1. r = Inr (v, ts1) \<Longrightarrow> advances ts1 (f v ts1)"
  shows "advances ts (case r of Inl e \<Rightarrow> Inl e | Inr (v, ts1) \<Rightarrow> f v ts1)"
proof (cases r)
  case (Inl e)
  then show ?thesis by simp
next
  case (Inr p)
  obtain v ts1 where p: "p = (v, ts1)" by (cases p)
  from assms(1) Inr p have "tokens ts1 = tokens ts" "pos ts \<le> pos ts1" by simp_all
  moreover from assms(2) Inr p have "advances ts1 (f v ts1)" by simp
  ultimately have "advances ts (f v ts1)" by (rule advances_trans)
  with Inr p show ?thesis by simp
qed

lemma advances_bind_value:
  fixes r :: "error + ('f, 'c) pyval"
  assumes "\<And>v. r = Inr v \<Longrightarrow> advances ts (g v)"
  shows "advances ts (case r of Inl e \<Rightarrow> Inl e | Inr v \<Rightarrow> g v)"
  using assms by (cases r) auto

lemmas advances_intros = advances_bind advances_bind_value advances_eat

text \<open>
  The grammar rules. Each takes the stream and returns the value and the stream after
  it, or the exception. The \<^verbatim>\<open>while True\<close> loops of \<^verbatim>\<open>parse_mul\<close> and \<^verbatim>\<open>parse_add\<close> are
  \<open>parse_mul_loop\<close> and \<open>parse_add_loop\<close>, which carry the running \<^verbatim>\<open>value\<close>.
\<close>

function
  parse_primary :: "('f, 'c) runtime \<Rightarrow> ('f, 'c) TokenStream \<Rightarrow> error + (('f, 'c) pyval \<times> ('f, 'c) TokenStream)" and
  parse_unary :: "('f, 'c) runtime \<Rightarrow> ('f, 'c) TokenStream \<Rightarrow> error + (('f, 'c) pyval \<times> ('f, 'c) TokenStream)" and
  parse_pow :: "('f, 'c) runtime \<Rightarrow> ('f, 'c) TokenStream \<Rightarrow> error + (('f, 'c) pyval \<times> ('f, 'c) TokenStream)" and
  parse_mul_loop :: "('f, 'c) runtime \<Rightarrow> ('f, 'c) pyval \<Rightarrow> ('f, 'c) TokenStream \<Rightarrow> error + (('f, 'c) pyval \<times> ('f, 'c) TokenStream)" and
  parse_mul :: "('f, 'c) runtime \<Rightarrow> ('f, 'c) TokenStream \<Rightarrow> error + (('f, 'c) pyval \<times> ('f, 'c) TokenStream)" and
  parse_add_loop :: "('f, 'c) runtime \<Rightarrow> ('f, 'c) pyval \<Rightarrow> ('f, 'c) TokenStream \<Rightarrow> error + (('f, 'c) pyval \<times> ('f, 'c) TokenStream)" and
  parse_add :: "('f, 'c) runtime \<Rightarrow> ('f, 'c) TokenStream \<Rightarrow> error + (('f, 'c) pyval \<times> ('f, 'c) TokenStream)" and
  parse_expr :: "('f, 'c) runtime \<Rightarrow> ('f, 'c) TokenStream \<Rightarrow> error + (('f, 'c) pyval \<times> ('f, 'c) TokenStream)"
where
  "parse_primary rt ts =
     (case peek ts of
        NUM v \<Rightarrow>
          (case eat ts ''NUM'' None of
             Inl e \<Rightarrow> Inl e
           | Inr (tok, ts1) \<Rightarrow> Inr (v, ts1))
      | LPAREN \<Rightarrow>
          (case eat ts ''LPAREN'' (Some ''('') of
             Inl e \<Rightarrow> Inl e
           | Inr (tok, ts1) \<Rightarrow>
               (case parse_expr rt ts1 of
                  Inl e \<Rightarrow> Inl e
                | Inr (val, ts2) \<Rightarrow>
                    (case eat ts2 ''RPAREN'' (Some '')'') of
                       Inl e \<Rightarrow> Inl e
                     | Inr (tok', ts3) \<Rightarrow> Inr (val, ts3))))
      | _ \<Rightarrow> Inl (ParseError ExpectedNumberOrParen))"
| "parse_unary rt ts =
     (if peek ts = OP ''+'' then
        (case eat ts ''OP'' (Some ''+'') of
           Inl e \<Rightarrow> Inl e
         | Inr (tok, ts1) \<Rightarrow>
             (case parse_unary rt ts1 of
                Inl e \<Rightarrow> Inl e
              | Inr (v, ts2) \<Rightarrow> Inr (py_pos rt v, ts2)))
      else if peek ts = OP ''-'' then
        (case eat ts ''OP'' (Some ''-'') of
           Inl e \<Rightarrow> Inl e
         | Inr (tok, ts1) \<Rightarrow>
             (case parse_unary rt ts1 of
                Inl e \<Rightarrow> Inl e
              | Inr (v, ts2) \<Rightarrow> Inr (py_neg rt v, ts2)))
      else parse_primary rt ts)"
| "parse_pow rt ts =
     (case parse_unary rt ts of
        Inl e \<Rightarrow> Inl e
      | Inr (left, ts1) \<Rightarrow>
          if peek ts1 = OP ''**'' then
            (case eat ts1 ''OP'' (Some ''**'') of
               Inl e \<Rightarrow> Inl e
             | Inr (tok, ts2) \<Rightarrow>
                 (case parse_pow rt ts2 of
                    Inl e \<Rightarrow> Inl e
                  | Inr (right, ts3) \<Rightarrow>
                      (case py_pow rt left right of
                         Inl e \<Rightarrow> Inl e
                       | Inr v \<Rightarrow> Inr (v, ts3))))
          else Inr (left, ts1))"
| "parse_mul_loop rt val ts =
     (case peek ts of
        OP opr \<Rightarrow>
          if opr \<in> set [''*'', ''/'', ''//'', ''%''] then
            (case eat ts ''OP'' (Some opr) of
               Inl e \<Rightarrow> Inl e
             | Inr (tok, ts1) \<Rightarrow>
                 (case parse_pow rt ts1 of
                    Inl e \<Rightarrow> Inl e
                  | Inr (rhs, ts2) \<Rightarrow>
                      (case apply_mul_op rt opr val rhs of
                         Inl e \<Rightarrow> Inl e
                       | Inr val' \<Rightarrow> parse_mul_loop rt val' ts2)))
          else Inr (val, ts)
      | _ \<Rightarrow> Inr (val, ts))"
| "parse_mul rt ts =
     (case parse_pow rt ts of
        Inl e \<Rightarrow> Inl e
      | Inr (val, ts1) \<Rightarrow> parse_mul_loop rt val ts1)"
| "parse_add_loop rt val ts =
     (if peek ts = OP ''+'' then
        (case eat ts ''OP'' (Some ''+'') of
           Inl e \<Rightarrow> Inl e
         | Inr (tok, ts1) \<Rightarrow>
             (case parse_mul rt ts1 of
                Inl e \<Rightarrow> Inl e
              | Inr (rhs, ts2) \<Rightarrow>
                  (case py_add rt val rhs of
                     Inl e \<Rightarrow> Inl e
                   | Inr val' \<Rightarrow> parse_add_loop rt val' ts2)))
      else if peek ts = OP ''-'' then
        (case eat ts ''OP'' (Some ''-'') of
           Inl e \<Rightarrow> Inl e
         | Inr (tok, ts1) \<Rightarrow>
             (case parse_mul rt ts1 of
                Inl e \<Rightarrow> Inl e
              | Inr (rhs, ts2) \<Rightarrow>
                  (case py_sub rt val rhs of
                     Inl e \<Rightarrow> Inl e
                   | Inr val' \<Rightarrow> parse_add_loop rt val' ts2)))
      else Inr (val, ts))"
| "parse_add rt ts =
     (case parse_mul rt ts of
        Inl e \<Rightarrow> Inl e
      | Inr (val, ts1) \<Rightarrow> parse_add_loop rt val ts1)"
| "parse_expr rt ts = parse_add rt ts"
  by pat_completeness auto


text \<open>
  Termination: a rule calls a rule of a lower level on the same stream, or any rule on
  a stream from which a token has been eaten.
\<close>

lemma parse_advances_dom:
  "parse_primary_parse_unary_parse_pow_parse_mul_loop_parse_mul_parse_add_loop_parse_add_parse_expr_dom (Inl (Inl (Inl (rt, ts)))) \<Longrightarrow> advances ts (parse_primary rt ts)"
  "parse_primary_parse_unary_parse_pow_parse_mul_loop_parse_mul_parse_add_loop_parse_add_parse_expr_dom (Inl (Inl (Inr (rt, ts)))) \<Longrightarrow> advances ts (parse_unary rt ts)"
  "parse_primary_parse_unary_parse_pow_parse_mul_loop_parse_mul_parse_add_loop_parse_add_parse_expr_dom (Inl (Inr (Inl (rt, ts)))) \<Longrightarrow> advances ts (parse_pow rt ts)"
  "parse_primary_parse_unary_parse_pow_parse_mul_loop_parse_mul_parse_add_loop_parse_add_parse_expr_dom (Inl (Inr (Inr (rt, val, ts)))) \<Longrightarrow> advances ts (parse_mul_loop rt val ts)"
  "parse_primary_parse_unary_parse_pow_parse_mul_loop_parse_mul_parse_add_loop_parse_add_parse_expr_dom (Inr (Inl (Inl (rt, ts)))) \<Longrightarrow> advances ts (parse_mul rt ts)"
  "parse_primary_parse_unary_parse_pow_parse_mul_loop_parse_mul_parse_add_loop_parse_add_parse_expr_dom (Inr (Inl (Inr (rt, val, ts)))) \<Longrightarrow> advances ts (parse_add_loop rt val ts)"
  "parse_primary_parse_unary_parse_pow_parse_mul_loop_parse_mul_parse_add_loop_parse_add_parse_expr_dom (Inr (Inr (Inl (rt, ts)))) \<Longrightarrow> advances ts (parse_add rt ts)"
  "parse_primary_parse_unary_parse_pow_parse_mul_loop_parse_mul_parse_add_loop_parse_add_parse_expr_dom (Inr (Inr (Inr (rt, ts)))) \<Longrightarrow> advances ts (parse_expr rt ts)"
proof (induct rule: parse_primary_parse_unary_parse_pow_parse_mul_loop_parse_mul_parse_add_loop_parse_add_parse_expr.pinduct)
  case (1 rt ts)
  show ?case
    by (auto simp: parse_primary.psimps [OF 1(1)] split: token.splits
        intro!: advances_intros intro: 1(2))
next
  case (2 rt ts)
  show ?case
    by (auto simp: parse_unary.psimps [OF 2(1)] intro!: advances_intros intro: 2(2,3,4))
next
  case (3 rt ts)
  show ?case
    by (auto simp: parse_pow.psimps [OF 3(1)] intro!: advances_intros intro: 3(2,3))
next
  case (4 rt val ts)
  show ?case
    by (auto simp: parse_mul_loop.psimps [OF 4(1)] split: token.splits
        intro!: advances_intros intro: 4(2,3))
next
  case (5 rt ts)
  show ?case
    by (auto simp: parse_mul.psimps [OF 5(1)] intro!: advances_intros intro: 5(2,3))
next
  case (6 rt val ts)
  show ?case
    by (auto simp: parse_add_loop.psimps [OF 6(1)] intro!: advances_intros intro: 6(2,3,4,5))
next
  case (7 rt ts)
  show ?case
    by (auto simp: parse_add.psimps [OF 7(1)] intro!: advances_intros intro: 7(2,3))
next
  case (8 rt ts)
  show ?case
    using 8(2) by (simp add: parse_expr.psimps [OF 8(1)])
qed


lemma remaining_eat:
  "eat ts kind val = Inr (tok, ts') \<Longrightarrow> kind \<noteq> ''EOF'' \<Longrightarrow> remaining ts' < remaining ts"
  by (drule (1) eat_advances) (auto simp: remaining_def)

lemma remaining_advances:
  "advances ts (Inr (v, ts')) \<Longrightarrow> remaining ts' \<le> remaining ts"
  by (auto simp: remaining_def)

termination parse_primary
proof (relation "measure (case_sum
    (case_sum
      (case_sum (\<lambda>(rt, ts). 8 * remaining ts) (\<lambda>(rt, ts). 8 * remaining ts + 1))
      (case_sum (\<lambda>(rt, ts). 8 * remaining ts + 2) (\<lambda>(rt, val, ts). 8 * remaining ts + 3)))
    (case_sum
      (case_sum (\<lambda>(rt, ts). 8 * remaining ts + 4) (\<lambda>(rt, val, ts). 8 * remaining ts + 5))
      (case_sum (\<lambda>(rt, ts). 8 * remaining ts + 6) (\<lambda>(rt, ts). 8 * remaining ts + 7))))",
    goal_cases)
  case 1
  show ?case by simp
next
  case (2 rt ts b x y)
  then show ?case using remaining_eat [of ts "''LPAREN''" "Some ''(''" x y] by auto
next
  case (3 rt ts b x y)
  then show ?case using remaining_eat [of ts "''OP''" "Some ''+''" x y] by auto
next
  case (4 rt ts b x y)
  then show ?case using remaining_eat [of ts "''OP''" "Some ''-''" x y] by auto
next
  case (5 rt ts)
  then show ?case by auto
next
  case (6 rt ts)
  then show ?case by auto
next
  case (7 rt ts b x y ba xa ya)
  then show ?case
    using remaining_eat [of y "''OP''" "Some ''**''" xa ya]
      remaining_advances [of ts x y] parse_advances_dom(2) [of rt ts]
    by auto
next
  case (8 rt val ts x2 b x y)
  then show ?case using remaining_eat [of ts "''OP''" "Some x2" x y] by auto
next
  case (9 rt val ts x2 b x y ba xa ya bb)
  then show ?case
    using remaining_eat [of ts "''OP''" "Some x2" x y]
      remaining_advances [of y xa ya] parse_advances_dom(3) [of rt y]
    by auto
next
  case (10 rt ts)
  then show ?case by auto
next
  case (11 rt ts b x y)
  then show ?case
    using remaining_advances [of ts x y] parse_advances_dom(3) [of rt ts] by auto
next
  case (12 rt val ts b x y)
  then show ?case using remaining_eat [of ts "''OP''" "Some ''+''" x y] by auto
next
  case (13 rt val ts b x y ba xa ya bb)
  then show ?case
    using remaining_eat [of ts "''OP''" "Some ''+''" x y]
      remaining_advances [of y xa ya] parse_advances_dom(5) [of rt y]
    by auto
next
  case (14 rt val ts b x y)
  then show ?case using remaining_eat [of ts "''OP''" "Some ''-''" x y] by auto
next
  case (15 rt val ts b x y ba xa ya bb)
  then show ?case
    using remaining_eat [of ts "''OP''" "Some ''-''" x y]
      remaining_advances [of y xa ya] parse_advances_dom(5) [of rt y]
    by auto
next
  case (16 rt ts)
  then show ?case by auto
next
  case (17 rt ts b x y)
  then show ?case
    using remaining_advances [of ts x y] parse_advances_dom(5) [of rt ts] by auto
next
  case (18 rt ts)
  then show ?case by auto
qed


declare parse_primary.simps [simp del] parse_unary.simps [simp del] parse_pow.simps [simp del]
  parse_mul_loop.simps [simp del] parse_mul.simps [simp del] parse_add_loop.simps [simp del]
  parse_add.simps [simp del] parse_expr.simps [simp del] tokenize_loop.simps [simp del]

text \<open>\<^verbatim>\<open>TokenStream(tokens)\<close>\<close>

definition TokenStream_init :: "('f, 'c) token list \<Rightarrow> ('f, 'c) TokenStream" where
  "TokenStream_init toks = \<lparr>tokens = toks, pos = 0\<rparr>"

definition calculate_expression ::
  "('f, 'c) runtime \<Rightarrow> string \<Rightarrow> error + ('f, 'c) pyval" where
  "calculate_expression rt expression =
     (case tokenize rt expression of
        Inl e \<Rightarrow> Inl e
      | Inr toks \<Rightarrow>
          (case parse_expr rt (TokenStream_init toks) of
             Inl e \<Rightarrow> Inl e
           | Inr (result, ts) \<Rightarrow>
               if kind_of (peek ts) \<noteq> ''EOF'' then Inl (ParseError TrailingCharacters)
               else Inr result))"

section \<open>The grammar rules, one step at a time\<close>

text \<open>The stream after \<^verbatim>\<open>self.pos += 1\<close>.\<close>

definition advance :: "('f, 'c) TokenStream \<Rightarrow> ('f, 'c) TokenStream" where
  "advance ts = ts\<lparr>pos := pos ts + 1\<rparr>"

lemma eat_OP: "peek ts = OP opr \<Longrightarrow> eat ts ''OP'' (Some opr) = Inr (OP opr, advance ts)"
  by (simp add: eat_def advance_def)

lemma eat_NUM: "peek ts = NUM v \<Longrightarrow> eat ts ''NUM'' None = Inr (NUM v, advance ts)"
  by (simp add: eat_def advance_def)

lemma parse_primary_NUM: "peek ts = NUM v \<Longrightarrow> parse_primary rt ts = Inr (v, advance ts)"
  by (subst parse_primary.simps) (simp add: eat_NUM)

lemma parse_unary_NUM: "peek ts = NUM v \<Longrightarrow> parse_unary rt ts = Inr (v, advance ts)"
  by (subst parse_unary.simps) (simp add: parse_primary_NUM)

lemma parse_unary_minus:
  "peek ts = OP ''-'' \<Longrightarrow> parse_unary rt ts =
     (case parse_unary rt (advance ts) of
        Inl e \<Rightarrow> Inl e | Inr (v, ts2) \<Rightarrow> Inr (py_neg rt v, ts2))"
  by (subst parse_unary.simps) (simp add: eat_OP)

lemma parse_pow_single:
  "parse_unary rt ts = Inr (left, ts1) \<Longrightarrow> peek ts1 \<noteq> OP ''**'' \<Longrightarrow>
   parse_pow rt ts = Inr (left, ts1)"
  by (subst parse_pow.simps) simp

lemma parse_pow_power:
  "parse_unary rt ts = Inr (left, ts1) \<Longrightarrow> peek ts1 = OP ''**'' \<Longrightarrow>
   parse_pow rt ts =
     (case parse_pow rt (advance ts1) of
        Inl e \<Rightarrow> Inl e
      | Inr (right, ts3) \<Rightarrow>
          (case py_pow rt left right of Inl e \<Rightarrow> Inl e | Inr v \<Rightarrow> Inr (v, ts3)))"
  by (subst parse_pow.simps) (simp add: eat_OP)

lemma parse_mul_loop_stop:
  "kind_of (peek ts) \<noteq> ''OP'' \<Longrightarrow> parse_mul_loop rt val ts = Inr (val, ts)"
  by (subst parse_mul_loop.simps, cases "peek ts") simp_all

lemma parse_add_loop_stop:
  "kind_of (peek ts) \<noteq> ''OP'' \<Longrightarrow> parse_add_loop rt val ts = Inr (val, ts)"
  by (subst parse_add_loop.simps) auto

lemma parse_mul_loop_op:
  "peek ts = OP opr \<Longrightarrow> opr \<in> set [''*'', ''/'', ''//'', ''%''] \<Longrightarrow>
   parse_mul_loop rt val ts =
     (case parse_pow rt (advance ts) of
        Inl e \<Rightarrow> Inl e
      | Inr (rhs, ts2) \<Rightarrow>
          (case apply_mul_op rt opr val rhs of
             Inl e \<Rightarrow> Inl e
           | Inr val' \<Rightarrow> parse_mul_loop rt val' ts2))"
  by (subst parse_mul_loop.simps) (simp add: eat_OP)

lemma parse_expr_single:
  "parse_pow rt ts = Inr (v, ts1) \<Longrightarrow> kind_of (peek ts1) \<noteq> ''OP'' \<Longrightarrow>
   parse_expr rt ts = Inr (v, ts1)"
  by (simp add: parse_expr.simps parse_add.simps parse_mul.simps
      parse_mul_loop_stop parse_add_loop_stop)

lemma parse_expr_pow_error:
  "parse_pow rt ts = Inl e \<Longrightarrow> parse_expr rt ts = Inl e"
  by (simp add: parse_expr.simps parse_add.simps parse_mul.simps)

lemma parse_expr_power_chain:
  "parse_expr rt (TokenStream_init [NUM a, OP ''**'', NUM b, OP ''**'', NUM c, EOF]) =
   (case py_pow rt b c of Inl e \<Rightarrow> Inl e | Inr r \<Rightarrow>
     (case py_pow rt a r of Inl e \<Rightarrow> Inl e | Inr v \<Rightarrow>
        Inr (v, \<lparr>tokens = [NUM a, OP ''**'', NUM b, OP ''**'', NUM c, EOF], pos = 5\<rparr>)))"
proof -
  let ?ts = "\<lambda>k. \<lparr>tokens = [NUM a, OP ''**'', NUM b, OP ''**'', NUM c, EOF], pos = k\<rparr>"
  have u4: "parse_unary rt (?ts 4) = Inr (c, ?ts 5)"
    using parse_unary_NUM [of "?ts 4" c rt] by (simp add: peek_def advance_def)
  have p4: "parse_pow rt (?ts 4) = Inr (c, ?ts 5)"
    using parse_pow_single [OF u4] by (simp add: peek_def)
  have u2: "parse_unary rt (?ts 2) = Inr (b, ?ts 3)"
    using parse_unary_NUM [of "?ts 2" b rt] by (simp add: peek_def advance_def)
  have p2: "parse_pow rt (?ts 2) =
      (case py_pow rt b c of Inl e \<Rightarrow> Inl e | Inr v \<Rightarrow> Inr (v, ?ts 5))"
    using parse_pow_power [OF u2] p4 by (simp add: peek_def advance_def)
  have u0: "parse_unary rt (?ts 0) = Inr (a, ?ts 1)"
    using parse_unary_NUM [of "?ts 0" a rt] by (simp add: peek_def advance_def)
  have p0: "parse_pow rt (?ts 0) =
      (case py_pow rt b c of Inl e \<Rightarrow> Inl e | Inr r \<Rightarrow>
        (case py_pow rt a r of Inl e \<Rightarrow> Inl e | Inr v \<Rightarrow> Inr (v, ?ts 5)))"
    using parse_pow_power [OF u0] p2
    by (cases "py_pow rt b c") (simp_all add: peek_def advance_def numeral_2_eq_2 [symmetric])
  have k: "kind_of (peek (?ts 5)) \<noteq> ''OP''" by (simp add: peek_def)
  show ?thesis
  proof (cases "py_pow rt b c")
    case (Inl e)
    with p0 show ?thesis by (simp add: TokenStream_init_def parse_expr_pow_error)
  next
    case r: (Inr r)
    show ?thesis
    proof (cases "py_pow rt a r")
      case (Inl e)
      with p0 r show ?thesis by (simp add: TokenStream_init_def parse_expr_pow_error)
    next
      case (Inr v)
      with p0 r have "parse_pow rt (?ts 0) = Inr (v, ?ts 5)" by simp
      from parse_expr_single [OF this k] r Inr show ?thesis
        by (simp add: TokenStream_init_def)
    qed
  qed
qed


section \<open>Evaluation of concrete expressions\<close>

lemmas tokenize_eval = tokenize_def tokenize_loop.simps scan_token_def scan_digits.simps
  isspace_def isdigit_def isdecimal_def slice_def py_int_def py_float_def decimal_value_def
  Let_def

lemmas parse_eval = parse_primary.simps parse_unary.simps parse_pow.simps
  parse_mul_loop.simps parse_mul.simps parse_add_loop.simps parse_add.simps parse_expr.simps
  peek_def eat_def TokenStream_init_def

lemmas calc_eval = calculate_expression_def tokenize_eval parse_eval apply_mul_op_def
  py_add_def py_sub_def py_mul_def

section \<open>A reference runtime: CPython on IEEE 754 binary64\<close>

text \<open>
  The theorems of the following sections hold for every runtime. Where a statement
  needs one particular runtime, to run an expression to its result, it uses \<open>py64\<close>:
  floats are the values of the binary64 format, operations round to nearest, ties to
  even, and the conversions and \<^verbatim>\<open>float.__pow__\<close> follow CPython.

  A finite float \<open>Finite s m e\<close> has the value \<open>\<plusminus> m * 2 ^ e\<close> (\<open>s\<close> is the sign bit);
  in the format, \<open>m < 2 ^ 53\<close> and \<open>- 1074 \<le> e \<le> 971\<close>, with \<open>2 ^ 52 \<le> m\<close> unless
  \<open>e = - 1074\<close>. Both zeros are \<open>Finite s 0 (- 1074)\<close>.
\<close>

datatype f64 = Finite bool nat int | Infinity bool | NaN

text \<open>The position of the leading bit of \<open>n > 0\<close>.\<close>

fun floor_log2 :: "nat \<Rightarrow> nat" where
  "floor_log2 n = (if n < 2 then 0 else floor_log2 (n div 2) + 1)"

declare floor_log2.simps [simp del]

text \<open>\<open>n * 2 ^ k\<close> for \<open>k \<ge> 0\<close>, and \<open>n\<close> otherwise.\<close>

definition scale2 :: "nat \<Rightarrow> int \<Rightarrow> nat" where
  "scale2 n k = (if 0 \<le> k then n * 2 ^ nat k else n)"

text \<open>
  The integer nearest to \<open>n / d\<close>, the even one of two that are equally near: from the
  quotient \<open>q\<close> and the remainder \<open>r\<close>.
\<close>

definition round_pick :: "nat \<Rightarrow> nat \<Rightarrow> nat \<Rightarrow> nat" where
  "round_pick q r d =
     (if 2 * r < d then q
      else if d < 2 * r then q + 1
      else if even q then q else q + 1)"

definition round_half_even :: "nat \<Rightarrow> nat \<Rightarrow> nat" where
  "round_half_even n d = round_pick (n div d) (n mod d) d"

text \<open>
  The float nearest to \<open>\<plusminus> n / d\<close> (\<open>d > 0\<close>), in steps. \<open>leading_exponent n d\<close> is the
  exponent \<open>l\<close> of the leading bit of the quotient, \<open>2 ^ l \<le> n / d < 2 ^ (l + 1)\<close>: the
  difference \<open>k\<close> of the leading bits of \<open>n\<close> and \<open>d\<close>, or one less. The format keeps 53
  bits and no bit below \<open>2 ^ - 1074\<close>, so the last bit kept has the exponent
  \<open>e = max (l - 52) (- 1074)\<close>, and the mantissa is the quotient by \<open>2 ^ e\<close>, rounded.
  A mantissa rounded up to \<open>2 ^ 53\<close> moves to the next exponent, and a result beyond
  the largest finite float is an infinity.
\<close>

definition leading_adjust :: "nat \<Rightarrow> nat \<Rightarrow> int \<Rightarrow> int" where
  "leading_adjust n d k = (if scale2 d k \<le> scale2 n (- k) then k else k - 1)"

definition leading_exponent :: "nat \<Rightarrow> nat \<Rightarrow> int" where
  "leading_exponent n d = leading_adjust n d (int (floor_log2 n) - int (floor_log2 d))"

definition f64_finite :: "bool \<Rightarrow> nat \<Rightarrow> int \<Rightarrow> f64" where
  "f64_finite s m e = (if 971 < e then Infinity s else Finite s m e)"

definition f64_pack :: "bool \<Rightarrow> nat \<Rightarrow> int \<Rightarrow> f64" where
  "f64_pack s m e = (if m = 2 ^ 53 then f64_finite s (2 ^ 52) (e + 1) else f64_finite s m e)"

definition f64_round_at :: "bool \<Rightarrow> nat \<Rightarrow> nat \<Rightarrow> int \<Rightarrow> f64" where
  "f64_round_at s n d e = f64_pack s (round_half_even (scale2 n (- e)) (scale2 d e)) e"

definition f64_round :: "bool \<Rightarrow> nat \<Rightarrow> nat \<Rightarrow> f64" where
  "f64_round s n d =
     (if n = 0 then Finite s 0 (- 1074)
      else f64_round_at s n d (max (leading_exponent n d - 52) (- 1074)))"

definition f64_zero :: f64 where
  "f64_zero = Finite False 0 (- 1074)"

definition f64_one :: f64 where
  "f64_one = Finite False (2 ^ 52) (- 52)"

fun f64_is_zero :: "f64 \<Rightarrow> bool" where
  "f64_is_zero (Finite s m e) = (m = 0)"
| "f64_is_zero (Infinity s) = False"
| "f64_is_zero NaN = False"

fun f64_sign :: "f64 \<Rightarrow> bool" where
  "f64_sign (Finite s m e) = s"
| "f64_sign (Infinity s) = s"
| "f64_sign NaN = False"

fun f64_neg :: "f64 \<Rightarrow> f64" where
  "f64_neg (Finite s m e) = Finite (\<not> s) m e"
| "f64_neg (Infinity s) = Infinity (\<not> s)"
| "f64_neg NaN = NaN"

fun f64_abs :: "f64 \<Rightarrow> f64" where
  "f64_abs (Finite s m e) = Finite False m e"
| "f64_abs (Infinity s) = Infinity False"
| "f64_abs NaN = NaN"

text \<open>The magnitude of a finite float as a fraction \<open>f64_num x / f64_den x\<close>.\<close>

fun f64_num :: "f64 \<Rightarrow> nat" where
  "f64_num (Finite s m e) = scale2 m e"
| "f64_num (Infinity s) = 0"
| "f64_num NaN = 0"

fun f64_den :: "f64 \<Rightarrow> nat" where
  "f64_den (Finite s m e) = scale2 1 (- e)"
| "f64_den (Infinity s) = 1"
| "f64_den NaN = 1"

definition f64_signed_num :: "f64 \<Rightarrow> int" where
  "f64_signed_num x = (if f64_sign x then - int (f64_num x) else int (f64_num x))"

definition f64_of_frac :: "int \<Rightarrow> nat \<Rightarrow> f64" where
  "f64_of_frac n d = f64_round (n < 0) (nat \<bar>n\<bar>) d"

text \<open>
  Addition, multiplication and division: the exact result, rounded; the special values
  as IEEE 754 has them. An exact sum of zero is \<open>+0\<close> unless both operands are \<open>-0\<close>.
\<close>

definition f64_sum :: "bool \<Rightarrow> int \<Rightarrow> nat \<Rightarrow> f64" where
  "f64_sum both_negative r d = (if r = 0 then Finite both_negative 0 (- 1074) else f64_of_frac r d)"

fun f64_add :: "f64 \<Rightarrow> f64 \<Rightarrow> f64" where
  "f64_add NaN y = NaN"
| "f64_add (Infinity s) NaN = NaN"
| "f64_add (Infinity s) (Infinity t) = (if s = t then Infinity s else NaN)"
| "f64_add (Infinity s) (Finite t n f) = Infinity s"
| "f64_add (Finite s m e) NaN = NaN"
| "f64_add (Finite s m e) (Infinity t) = Infinity t"
| "f64_add (Finite s m e) (Finite t n f) =
     f64_sum (s \<and> t)
       (f64_signed_num (Finite s m e) * int (f64_den (Finite t n f))
         + f64_signed_num (Finite t n f) * int (f64_den (Finite s m e)))
       (f64_den (Finite s m e) * f64_den (Finite t n f))"

definition f64_sub :: "f64 \<Rightarrow> f64 \<Rightarrow> f64" where
  "f64_sub x y = f64_add x (f64_neg y)"

fun f64_mul :: "f64 \<Rightarrow> f64 \<Rightarrow> f64" where
  "f64_mul NaN y = NaN"
| "f64_mul (Infinity s) NaN = NaN"
| "f64_mul (Infinity s) (Infinity t) = Infinity (s \<noteq> t)"
| "f64_mul (Infinity s) (Finite t n f) = (if n = 0 then NaN else Infinity (s \<noteq> t))"
| "f64_mul (Finite s m e) NaN = NaN"
| "f64_mul (Finite s m e) (Infinity t) = (if m = 0 then NaN else Infinity (s \<noteq> t))"
| "f64_mul (Finite s m e) (Finite t n f) =
     f64_round (s \<noteq> t)
       (f64_num (Finite s m e) * f64_num (Finite t n f))
       (f64_den (Finite s m e) * f64_den (Finite t n f))"

fun f64_div :: "f64 \<Rightarrow> f64 \<Rightarrow> f64" where
  "f64_div NaN y = NaN"
| "f64_div (Infinity s) NaN = NaN"
| "f64_div (Infinity s) (Infinity t) = NaN"
| "f64_div (Infinity s) (Finite t n f) = Infinity (s \<noteq> t)"
| "f64_div (Finite s m e) NaN = NaN"
| "f64_div (Finite s m e) (Infinity t) = Finite (s \<noteq> t) 0 (- 1074)"
| "f64_div (Finite s m e) (Finite t n f) =
     (if n = 0 then (if m = 0 then NaN else Infinity (s \<noteq> t))
      else f64_round (s \<noteq> t)
        (f64_num (Finite s m e) * f64_den (Finite t n f))
        (f64_den (Finite s m e) * f64_num (Finite t n f)))"

text \<open>
  Conversion of an \<^verbatim>\<open>int\<close>, and \<^verbatim>\<open>a / b\<close> on two \<^verbatim>\<open>int\<close>s: the correctly rounded
  value, and \<open>None\<close> (\<^verbatim>\<open>OverflowError\<close>) where that is an infinity. The quotient of
  zero by a negative number is \<open>-0\<close>.
\<close>

definition f64_of_int :: "int \<Rightarrow> f64 option" where
  "f64_of_int i = (case f64_of_frac i 1 of Infinity s \<Rightarrow> None | x \<Rightarrow> Some x)"

definition f64_int_truediv :: "int \<Rightarrow> int \<Rightarrow> f64 option" where
  "f64_int_truediv a b =
     (case f64_round ((a < 0) \<noteq> (b < 0)) (nat \<bar>a\<bar>) (nat \<bar>b\<bar>) of
        Infinity s \<Rightarrow> None | x \<Rightarrow> Some x)"

text \<open>\<^verbatim>\<open>float(s)\<close> for decimal digits, a point, decimal digits: the nearest float.\<close>

definition f64_of_decimal :: "string \<Rightarrow> f64" where
  "f64_of_decimal s =
     f64_round False
       (decimal_value (filter (\<lambda>ch. ch \<noteq> CHR ''.'') s))
       (10 ^ length (drop 1 (dropWhile (\<lambda>ch. ch \<noteq> CHR ''.'') s)))"

fun f64_is_integer :: "f64 \<Rightarrow> bool" where
  "f64_is_integer (Finite s m e) = (f64_num (Finite s m e) mod f64_den (Finite s m e) = 0)"
| "f64_is_integer (Infinity s) = False"
| "f64_is_integer NaN = False"

definition f64_is_odd_integer :: "f64 \<Rightarrow> bool" where
  "f64_is_odd_integer x = (f64_is_integer x \<and> odd (f64_num x div f64_den x))"

definition f64_abs_greater_one :: "f64 \<Rightarrow> bool" where
  "f64_abs_greater_one x =
     (case x of Finite s m e \<Rightarrow> f64_den x < f64_num x | Infinity s \<Rightarrow> True | NaN \<Rightarrow> False)"

text \<open>
  The C library's \<^verbatim>\<open>pow(x, y)\<close> for finite \<open>x > 0\<close> and finite \<open>y \<noteq> 0\<close>. The library
  does not round the power correctly in general; its error stays below one unit in
  the last place. Two consequences of that bound are all that this runtime fixes,
  for a whole number \<open>y\<close>: where the exact power is a float, that float is returned;
  and where the exact power is \<open>2 ^ 1024\<close> or more, the result is the infinity that
  CPython turns into \<^verbatim>\<open>OverflowError\<close>. Every other result (an inexact power, a
  fractional \<open>y\<close>) depends on the library and is left unspecified; no statement below
  depends on it.
\<close>

text \<open>The float \<open>r\<close> is exactly the fraction \<open>n / d\<close>.\<close>

definition f64_exactly :: "f64 \<Rightarrow> nat \<Rightarrow> nat \<Rightarrow> bool" where
  "f64_exactly r n d =
     (case r of
        Finite s m e \<Rightarrow> f64_num r * d = n * f64_den r
      | Infinity s \<Rightarrow> False
      | NaN \<Rightarrow> False)"

definition pow_pick :: "f64 \<Rightarrow> nat \<Rightarrow> nat \<Rightarrow> f64" where
  "pow_pick r n d =
     (if f64_exactly r n d then r
      else if 2 ^ 1024 * d \<le> n then Infinity False
      else undefined)"

definition pow_value :: "nat \<Rightarrow> nat \<Rightarrow> f64" where
  "pow_value n d = pow_pick (f64_round False n d) n d"

definition pow_exact :: "nat \<Rightarrow> nat \<Rightarrow> bool \<Rightarrow> nat \<Rightarrow> f64" where
  "pow_exact n d negative k =
     (if negative then pow_value (d ^ k) (n ^ k) else pow_value (n ^ k) (d ^ k))"

definition libm_pow :: "f64 \<Rightarrow> f64 \<Rightarrow> f64" where
  "libm_pow x y =
     (if f64_is_integer y
      then pow_exact (f64_num x) (f64_den x) (f64_sign y) (f64_num y div f64_den y)
      else undefined)"

text \<open>
  \<^verbatim>\<open>float.__pow__\<close>, with the case distinction of CPython's \<^verbatim>\<open>float_pow\<close> in its order:
  a zero exponent; a NaN; an infinite exponent; an infinite base; a zero base, which
  raises \<^verbatim>\<open>ZeroDivisionError\<close> for a negative exponent; a negative base, which gives
  a complex number for a fractional exponent (its value is left unspecified here);
  a base of magnitude one; and the library's \<^verbatim>\<open>pow\<close>, whose overflow raises
  \<^verbatim>\<open>OverflowError\<close>.
\<close>

definition f64_negate_if :: "bool \<Rightarrow> f64 \<Rightarrow> f64" where
  "f64_negate_if negate_result x = (if negate_result then f64_neg x else x)"

definition f64_pow_result :: "bool \<Rightarrow> f64 \<Rightarrow> builtin_exc + (f64 + (f64 \<times> f64))" where
  "f64_pow_result negate_result ix =
     (if ix = Infinity False then Inl OverflowError
      else Inr (Inl (f64_negate_if negate_result ix)))"

definition f64_pow :: "f64 \<Rightarrow> f64 \<Rightarrow> builtin_exc + (f64 + (f64 \<times> f64))" where
  "f64_pow iv iw =
     (if f64_is_zero iw then Inr (Inl f64_one)
      else if iv = NaN then Inr (Inl NaN)
      else if iw = NaN then Inr (Inl (if iv = f64_one then f64_one else NaN))
      else if f64_abs iw = Infinity False then
        (if f64_abs iv = f64_one then Inr (Inl f64_one)
         else if (\<not> f64_sign iw) = f64_abs_greater_one iv then Inr (Inl (Infinity False))
         else Inr (Inl f64_zero))
      else if f64_abs iv = Infinity False then
        (if \<not> f64_sign iw then Inr (Inl (if f64_is_odd_integer iw then iv else f64_abs iv))
         else Inr (Inl (if f64_is_odd_integer iw then Finite (f64_sign iv) 0 (- 1074) else f64_zero)))
      else if f64_is_zero iv then
        (if f64_sign iw then Inl ZeroDivisionError
         else Inr (Inl (if f64_is_odd_integer iw then iv else f64_zero)))
      else if f64_sign iv \<and> \<not> f64_is_integer iw then Inr (Inr undefined)
      else if f64_abs iv = f64_one
        then Inr (Inl (f64_negate_if (f64_sign iv \<and> f64_is_odd_integer iw) f64_one))
      else f64_pow_result (f64_sign iv \<and> f64_is_odd_integer iw) (libm_pow (f64_abs iv) iw))"

text \<open>
  A complex number is its real and imaginary part. Arithmetic with a complex operand
  goes through the C library as well and is left unspecified.
\<close>

definition py64 :: "(f64, f64 \<times> f64) runtime" where
  "py64 = \<lparr>
     int_max_str_digits = 4300,
     float_of_decimal = f64_of_decimal,
     float_of_int = f64_of_int,
     float_is_zero = f64_is_zero,
     float_neg = f64_neg,
     float_add = f64_add,
     float_sub = f64_sub,
     float_mul = f64_mul,
     float_truediv = f64_div,
     int_truediv = f64_int_truediv,
     float_pow = f64_pow,
     complex_is_zero = (\<lambda>z. f64_is_zero (fst z) \<and> f64_is_zero (snd z)),
     complex_neg = (\<lambda>z. (f64_neg (fst z), f64_neg (snd z))),
     complex_arith = (\<lambda>opr a b. undefined)
   \<rparr>"

lemma floor_log2_small: "n < 2 \<Longrightarrow> floor_log2 n = 0"
  by (simp add: floor_log2.simps)

lemma floor_log2_step: "2 \<le> n \<Longrightarrow> floor_log2 n = floor_log2 (n div 2) + 1"
  by (subst floor_log2.simps) simp

lemmas py64_eval = py64_def f64_round_def floor_log2_small floor_log2_step scale2_def
  round_half_even_def round_pick_def leading_adjust_def leading_exponent_def f64_finite_def
  f64_pack_def f64_round_at_def f64_sum_def pow_exact_def pow_value_def pow_pick_def
  f64_exactly_def f64_negate_if_def
  f64_pow_result_def f64_of_frac_def f64_of_int_def f64_int_truediv_def f64_of_decimal_def
  f64_is_odd_integer_def f64_abs_greater_one_def libm_pow_def f64_pow_def f64_one_def
  f64_zero_def f64_sub_def f64_signed_num_def

section \<open>Associativity of the power operator\<close>

text \<open>
  Claim C1. The power operator is right-associative. For all numbers \<open>a\<close>, \<open>b\<close> and \<open>c\<close>,
  the token sequence of \<^verbatim>\<open>a ** b ** c\<close> evaluates \<^verbatim>\<open>b ** c\<close> first and then raises \<open>a\<close>
  to that result, an exception of either power being the outcome of the whole
  expression; the stream is left at the \<^verbatim>\<open>EOF\<close> token. In particular
  \<^verbatim>\<open>2 ** 3 ** 2\<close> is 512, on every runtime.
\<close>

theorem power_right_associative:
  "parse_expr rt (TokenStream_init [NUM a, OP ''**'', NUM b, OP ''**'', NUM c, EOF]) =
     (case py_pow rt b c of
        Inl e \<Rightarrow> Inl e
      | Inr r \<Rightarrow>
          (case py_pow rt a r of
             Inl e \<Rightarrow> Inl e
           | Inr v \<Rightarrow>
               Inr (v, \<lparr>tokens = [NUM a, OP ''**'', NUM b, OP ''**'', NUM c, EOF], pos = 5\<rparr>)))
   \<and> calculate_expression rt ''2 ** 3 ** 2'' = Inr (IntV 512)"
proof
  show "parse_expr rt (TokenStream_init [NUM a, OP ''**'', NUM b, OP ''**'', NUM c, EOF]) =
     (case py_pow rt b c of
        Inl e \<Rightarrow> Inl e
      | Inr r \<Rightarrow>
          (case py_pow rt a r of
             Inl e \<Rightarrow> Inl e
           | Inr v \<Rightarrow>
               Inr (v, \<lparr>tokens = [NUM a, OP ''**'', NUM b, OP ''**'', NUM c, EOF], pos = 5\<rparr>)))"
    by (rule parse_expr_power_chain)
  show "calculate_expression rt ''2 ** 3 ** 2'' = Inr (IntV 512)"
    by (simp add: calculate_expression_def tokenize_eval parse_eval)
qed

section \<open>Rejected inputs\<close>

text \<open>
  Claim C8. Each of the inputs \<^verbatim>\<open>2 3\<close>, \<^verbatim>\<open>2 +\<close>, \<^verbatim>\<open>(2+3\<close>, \<^verbatim>\<open>.5\<close> and \<^verbatim>\<open>12.\<close> raises
  \<^verbatim>\<open>ParseError\<close>: tokens left after a complete expression, a missing operand, a
  parenthesis that is not closed, a number that starts with a point (the point is an
  invalid character at index 0) and a number that ends with a point (a digit is
  expected after the point at index 2).
\<close>

theorem malformed_inputs_rejected:
  "calculate_expression rt ''2 3'' = Inl (ParseError TrailingCharacters)
   \<and> calculate_expression rt ''2 +'' = Inl (ParseError ExpectedNumberOrParen)
   \<and> calculate_expression rt ''(2+3'' = Inl (ParseError (ExpectedTokenKind ''RPAREN''))
   \<and> calculate_expression rt ''.5'' = Inl (ParseError (InvalidCharacter CHR ''.'' 0))
   \<and> calculate_expression rt ''12.'' = Inl (ParseError (DigitExpectedAfterPoint 2))"
  by (simp add: calculate_expression_def tokenize_eval parse_eval py_add_def)

section \<open>Division by zero\<close>

lemma apply_mul_op_zero:
  "opr \<in> set [''/'', ''//'', ''%''] \<Longrightarrow> py_is_zero rt b \<Longrightarrow>
   apply_mul_op rt opr a b = Inl (EvalError DivisionByZero)"
  by (simp add: apply_mul_op_def)

lemma parse_mul_loop_zero:
  assumes "opr \<in> set [''/'', ''//'', ''%'']" and "py_is_zero rt b"
    and "peek ts = OP opr" and "parse_pow rt (advance ts) = Inr (b, ts2)"
  shows "parse_mul_loop rt a ts = Inl (EvalError DivisionByZero)"
proof -
  from assms(1) have "opr \<in> set [''*'', ''/'', ''//'', ''%'']" by auto
  from parse_mul_loop_op [OF assms(3) this, of rt a] assms(4)
    apply_mul_op_zero [OF assms(1,2), of a]
  show ?thesis by simp
qed

text \<open>
  Claim C2. For every application of \<^verbatim>\<open>/\<close>, \<^verbatim>\<open>//\<close> or \<^verbatim>\<open>%\<close> whose right operand equals
  zero, of whatever kind the two operands are, the outcome is \<^verbatim>\<open>EvalError\<close> with the
  message of the division by zero: for \<^verbatim>\<open>_apply_mul_op\<close> itself, whose zero test
  comes before the test for integers, and for the loop of \<^verbatim>\<open>parse_mul\<close> that applies
  it to the operand just parsed. In particular \<^verbatim>\<open>5 / 0\<close>, \<^verbatim>\<open>5 // 0\<close>, \<^verbatim>\<open>5 % 0\<close>, and
  \<^verbatim>\<open>5.0 // 0\<close> and \<^verbatim>\<open>5.0 % 0\<close> with a float operand, report the division by zero and
  not the restriction to integers.
\<close>

theorem division_by_zero_first:
  "(opr \<in> set [''/'', ''//'', ''%''] \<and> py_is_zero rt b \<longrightarrow>
      apply_mul_op rt opr a b = Inl (EvalError DivisionByZero))
   \<and> (opr \<in> set [''/'', ''//'', ''%''] \<and> py_is_zero rt b \<and> peek ts = OP opr
        \<and> parse_pow rt (advance ts) = Inr (b, ts2) \<longrightarrow>
      parse_mul_loop rt a ts = Inl (EvalError DivisionByZero))
   \<and> calculate_expression rt ''5 / 0'' = Inl (EvalError DivisionByZero)
   \<and> calculate_expression rt ''5 // 0'' = Inl (EvalError DivisionByZero)
   \<and> calculate_expression rt ''5 % 0'' = Inl (EvalError DivisionByZero)
   \<and> calculate_expression rt ''5.0 // 0'' = Inl (EvalError DivisionByZero)
   \<and> calculate_expression rt ''5.0 % 0'' = Inl (EvalError DivisionByZero)"
proof (intro conjI impI)
  show "calculate_expression rt ''5 / 0'' = Inl (EvalError DivisionByZero)"
    by (simp add: calc_eval)
  show "calculate_expression rt ''5 // 0'' = Inl (EvalError DivisionByZero)"
    by (simp add: calc_eval)
  show "calculate_expression rt ''5 % 0'' = Inl (EvalError DivisionByZero)"
    by (simp add: calc_eval)
  show "calculate_expression rt ''5.0 // 0'' = Inl (EvalError DivisionByZero)"
    by (simp add: calc_eval)
  show "calculate_expression rt ''5.0 % 0'' = Inl (EvalError DivisionByZero)"
    by (simp add: calc_eval)
qed (auto intro: apply_mul_op_zero parse_mul_loop_zero)

text \<open>
  On the reference runtime: \<^verbatim>\<open>5.0 % 0.0\<close> on two floats, and the loop of \<^verbatim>\<open>parse_mul\<close>
  at the operator of \<^verbatim>\<open>5 // 0.0\<close>.
\<close>

theorem division_by_zero_first_witness:
  "py_is_zero py64 (FloatV (Finite False 0 (- 1074)))
   \<and> apply_mul_op py64 ''%'' (FloatV (Finite False (5 * 2 ^ 50) (- 50)))
        (FloatV (Finite False 0 (- 1074))) = Inl (EvalError DivisionByZero)
   \<and> parse_mul_loop py64 (IntV 5)
        \<lparr>tokens = [NUM (IntV 5), OP ''//'', NUM (FloatV (Finite False 0 (- 1074))), EOF],
         pos = 1\<rparr> = Inl (EvalError DivisionByZero)"
proof -
  let ?z = "FloatV (Finite False 0 (- 1074)) :: (f64, f64 \<times> f64) pyval"
  let ?ts = "\<lparr>tokens = [NUM (IntV 5), OP ''//'', NUM ?z, EOF], pos = 1\<rparr>"
  have z: "py_is_zero py64 ?z" by (simp add: py64_def)
  have p: "peek ?ts = OP ''//''" by (simp add: peek_def)
  have u: "parse_unary py64 (advance ?ts) = Inr (?z, advance (advance ?ts))"
    by (rule parse_unary_NUM) (simp add: peek_def advance_def)
  have q: "parse_pow py64 (advance ?ts) = Inr (?z, advance (advance ?ts))"
    by (rule parse_pow_single [OF u]) (simp add: peek_def advance_def)
  from division_by_zero_first [of "''%''" py64 ?z "FloatV (Finite False (5 * 2 ^ 50) (- 50))"]
    division_by_zero_first [of "''//''" py64 ?z "IntV 5" ?ts "advance (advance ?ts)"]
    z p q
  show ?thesis by simp
qed

section \<open>Floor division and modulo\<close>

text \<open>
  Claim C3. \<^verbatim>\<open>//\<close> and \<^verbatim>\<open>%\<close> require two integers. With a right operand that is not
  zero and an operand that is not an \<^verbatim>\<open>int\<close>, the outcome is \<^verbatim>\<open>EvalError\<close> with the
  message of that operator. On two integers with a divisor \<open>y \<noteq> 0\<close>, \<^verbatim>\<open>//\<close> gives the
  quotient \<open>q\<close> and \<^verbatim>\<open>%\<close> the remainder \<open>r\<close> of the floor convention: \<open>y * q + r = x\<close> with
  \<open>0 \<le> r < y\<close> for a positive and \<open>y < r \<le> 0\<close> for a negative divisor, so the remainder
  has the sign of the divisor. In particular \<^verbatim>\<open>7 // 2\<close> is 3, \<^verbatim>\<open>7 % 2\<close> is 1, and
  \<^verbatim>\<open>7.0 // 2\<close> raises \<^verbatim>\<open>EvalError\<close>.
\<close>

theorem floor_division_and_modulo:
  "(opr \<in> set [''//'', ''%''] \<and> \<not> py_is_zero rt b \<and> \<not> (is_int a \<and> is_int b) \<longrightarrow>
      apply_mul_op rt opr a b =
        Inl (EvalError (if opr = ''//'' then FloorDivIntegersOnly else ModIntegersOnly)))
   \<and> (y \<noteq> 0 \<longrightarrow>
        apply_mul_op rt ''//'' (IntV x) (IntV y) = Inr (IntV (x div y))
      \<and> apply_mul_op rt ''%'' (IntV x) (IntV y) = Inr (IntV (x mod y))
      \<and> y * (x div y) + x mod y = x
      \<and> (0 < y \<longrightarrow> 0 \<le> x mod y \<and> x mod y < y)
      \<and> (y < 0 \<longrightarrow> y < x mod y \<and> x mod y \<le> 0))
   \<and> calculate_expression rt ''7 // 2'' = Inr (IntV 3)
   \<and> calculate_expression rt ''7 % 2'' = Inr (IntV 1)
   \<and> calculate_expression rt ''7.0 // 2'' = Inl (EvalError FloorDivIntegersOnly)"
proof (intro conjI impI)
  assume "opr \<in> set [''//'', ''%''] \<and> \<not> py_is_zero rt b \<and> \<not> (is_int a \<and> is_int b)"
  then show "apply_mul_op rt opr a b =
      Inl (EvalError (if opr = ''//'' then FloorDivIntegersOnly else ModIntegersOnly))"
    by (cases a; cases b) (auto simp: apply_mul_op_def)
next
  show "calculate_expression rt ''7 // 2'' = Inr (IntV 3)" by (simp add: calc_eval)
  show "calculate_expression rt ''7 % 2'' = Inr (IntV 1)" by (simp add: calc_eval)
  show "calculate_expression rt ''7.0 // 2'' = Inl (EvalError FloorDivIntegersOnly)"
    by (simp add: calc_eval)
qed (simp_all add: apply_mul_op_def)

text \<open>
  On the reference runtime: \<^verbatim>\<open>7.0 % 2\<close> is refused; \<^verbatim>\<open>-7 // 2\<close> is \<open>-4\<close> and \<^verbatim>\<open>-7 % 2\<close>
  is 1; \<^verbatim>\<open>7 // -2\<close> is \<open>-4\<close> and \<^verbatim>\<open>7 % -2\<close> is \<open>-1\<close>.
\<close>

theorem floor_division_and_modulo_witness:
  "\<not> py_is_zero py64 (IntV 2)
   \<and> apply_mul_op py64 ''%'' (FloatV (Finite False (7 * 2 ^ 50) (- 50))) (IntV 2)
        = Inl (EvalError ModIntegersOnly)
   \<and> apply_mul_op py64 ''//'' (IntV (- 7)) (IntV 2) = Inr (IntV (- 4))
   \<and> apply_mul_op py64 ''%'' (IntV (- 7)) (IntV 2) = Inr (IntV 1)
   \<and> apply_mul_op py64 ''//'' (IntV 7) (IntV (- 2)) = Inr (IntV (- 4))
   \<and> apply_mul_op py64 ''%'' (IntV 7) (IntV (- 2)) = Inr (IntV (- 1))"
  using floor_division_and_modulo [of "''%''" py64 "IntV 2"
      "FloatV (Finite False (7 * 2 ^ 50) (- 50))" 2 "- 7"]
    floor_division_and_modulo [of "''%''" py64 "IntV 2"
      "FloatV (Finite False (7 * 2 ^ 50) (- 50))" "- 2" 7]
  by simp

section \<open>Unary sign and power\<close>

lemma parse_expr_negated_power:
  "parse_expr rt (TokenStream_init [OP ''-'', NUM a, OP ''**'', NUM b, EOF]) =
     (case py_pow rt (py_neg rt a) b of
        Inl e \<Rightarrow> Inl e
      | Inr v \<Rightarrow> Inr (v, \<lparr>tokens = [OP ''-'', NUM a, OP ''**'', NUM b, EOF], pos = 4\<rparr>))"
proof -
  let ?ts = "\<lambda>k. \<lparr>tokens = [OP ''-'', NUM a, OP ''**'', NUM b, EOF], pos = k\<rparr>"
  have u1: "parse_unary rt (?ts 1) = Inr (a, ?ts 2)"
    using parse_unary_NUM [of "?ts 1" a rt] by (simp add: peek_def advance_def)
  have u0: "parse_unary rt (?ts 0) = Inr (py_neg rt a, ?ts 2)"
    using parse_unary_minus [of "?ts 0" rt] u1 by (simp add: peek_def advance_def)
  have u3: "parse_unary rt (?ts 3) = Inr (b, ?ts 4)"
    using parse_unary_NUM [of "?ts 3" b rt] by (simp add: peek_def advance_def)
  have p3: "parse_pow rt (?ts 3) = Inr (b, ?ts 4)"
    using parse_pow_single [OF u3] by (simp add: peek_def)
  have p0: "parse_pow rt (?ts 0) =
      (case py_pow rt (py_neg rt a) b of Inl e \<Rightarrow> Inl e | Inr v \<Rightarrow> Inr (v, ?ts 4))"
    using parse_pow_power [OF u0] p3 by (simp add: peek_def advance_def)
  have k: "kind_of (peek (?ts 4)) \<noteq> ''OP''" by (simp add: peek_def)
  show ?thesis
  proof (cases "py_pow rt (py_neg rt a) b")
    case (Inl e)
    with p0 show ?thesis by (simp add: TokenStream_init_def parse_expr_pow_error)
  next
    case (Inr v)
    with p0 have "parse_pow rt (?ts 0) = Inr (v, ?ts 4)" by simp
    from parse_expr_single [OF this k] Inr show ?thesis by (simp add: TokenStream_init_def)
  qed
qed

text \<open>
  Claim C5 says that power binds more tightly than a unary sign, so that \<^verbatim>\<open>-a ** b\<close>
  is the negation of \<^verbatim>\<open>a ** b\<close> and \<^verbatim>\<open>-2 ** 2\<close> is \<open>-4\<close>. The grammar of the module is
  \<^verbatim>\<open>pow \<rightarrow> unary (** pow)?\<close>: \<^verbatim>\<open>parse_pow\<close> takes its left operand from \<^verbatim>\<open>parse_unary\<close>,
  which consumes the sign. \<^verbatim>\<open>-2 ** 2\<close> evaluates to 4, while the negation of
  \<^verbatim>\<open>2 ** 2\<close> is \<open>-4\<close>.
\<close>

theorem negated_power_counterexample:
  "calculate_expression py64 ''-2 ** 2'' = Inr (IntV 4)
   \<and> py_pow py64 (IntV 2) (IntV 2) = Inr (IntV 4)
   \<and> py_neg py64 (IntV 4) = IntV (- 4)"
  by (simp add: calc_eval)

text \<open>
  Claim C5, amended. A unary sign binds more tightly than the power operator on its
  left: for all numbers \<open>a\<close> and \<open>b\<close>, the token sequence of \<^verbatim>\<open>-a ** b\<close> evaluates to
  \<^verbatim>\<open>(-a) ** b\<close>, and \<^verbatim>\<open>-2 ** 2\<close> is 4, on every runtime.
\<close>

theorem unary_sign_binds_tighter_than_power:
  "parse_expr rt (TokenStream_init [OP ''-'', NUM a, OP ''**'', NUM b, EOF]) =
     (case py_pow rt (py_neg rt a) b of
        Inl e \<Rightarrow> Inl e
      | Inr v \<Rightarrow> Inr (v, \<lparr>tokens = [OP ''-'', NUM a, OP ''**'', NUM b, EOF], pos = 4\<rparr>))
   \<and> calculate_expression rt ''-2 ** 2'' = Inr (IntV 4)"
proof
  show "calculate_expression rt ''-2 ** 2'' = Inr (IntV 4)" by (simp add: calc_eval)
qed (rule parse_expr_negated_power)

section \<open>Exceptions of the interpreter\<close>

text \<open>
  Claim C6 says that a call returns a number or raises \<^verbatim>\<open>ParseError\<close> or \<^verbatim>\<open>EvalError\<close>
  and nothing else. \<^verbatim>\<open>_apply_mul_op\<close> turns a zero divisor into \<^verbatim>\<open>EvalError\<close>, but
  \<^verbatim>\<open>parse_pow\<close> applies \<^verbatim>\<open>**\<close> unguarded: \<^verbatim>\<open>0 ** -1\<close> raises the interpreter's
  \<^verbatim>\<open>ZeroDivisionError\<close>, which no handler of the module catches.
\<close>

theorem zero_to_negative_power_escapes:
  "calculate_expression py64 ''0 ** -1'' = Inl (Uncaught ZeroDivisionError)"
  by (simp add: calc_eval py64_eval)

section \<open>Kinds of results\<close>

text \<open>An outcome that is a value of the kind \<open>k\<close>.\<close>

fun yields :: "(('f, 'c) pyval \<Rightarrow> bool) \<Rightarrow> error + ('f, 'c) pyval \<Rightarrow> bool" where
  "yields k (Inl e) = False"
| "yields k (Inr v) = k v"

text \<open>An outcome that is a float, or the \<^verbatim>\<open>OverflowError\<close> of a conversion to float.\<close>

definition float_or_overflow :: "error + ('f, 'c) pyval \<Rightarrow> bool" where
  "float_or_overflow r = (yields is_float r \<or> r = Inl (Uncaught OverflowError))"

text \<open>What a grammar rule returns, without the stream it leaves behind.\<close>

fun returned :: "error + ('v \<times> 's) \<Rightarrow> error + 'v" where
  "returned (Inl e) = Inl e"
| "returned (Inr (v, ts)) = Inr v"

lemma py_arith_int: "py_arith rt opr iop fop (IntV x) (IntV y) = Inr (IntV (iop x y))"
  by simp

lemma py_arith_float:
  "yields is_float (py_arith rt opr iop fop (FloatV f) (FloatV g))"
  "float_or_overflow (py_arith rt opr iop fop (IntV x) (FloatV g))"
  "float_or_overflow (py_arith rt opr iop fop (FloatV f) (IntV y))"
  by (simp_all add: float_or_overflow_def split: option.splits)

lemma lift_pow_not_int: "\<not> yields is_int (lift_pow r)"
  by (cases r rule: lift_pow.cases) simp_all

lemma py_float_pow_not_int: "\<not> yields is_int (py_float_pow rt p q)"
  by (cases "(rt, p, q)" rule: py_float_pow.cases) (simp_all add: lift_pow_not_int)

text \<open>
  The grammar rules on the tokens of one operator between two numbers and of a sign
  before a number: \<^verbatim>\<open>parse_add\<close> applies \<^verbatim>\<open>+\<close> and \<^verbatim>\<open>-\<close>, \<^verbatim>\<open>_apply_mul_op\<close> applies \<^verbatim>\<open>*\<close>,
  \<^verbatim>\<open>parse_pow\<close> applies \<^verbatim>\<open>**\<close>, whose right operand may carry a sign, and \<^verbatim>\<open>parse_unary\<close>
  applies the sign.
\<close>

lemma returned_add:
  "returned (parse_expr rt (TokenStream_init [NUM a, OP ''+'', NUM b, EOF])) = py_add rt a b"
  by (cases "py_add rt a b") (simp_all add: parse_eval Let_def)

lemma returned_sub:
  "returned (parse_expr rt (TokenStream_init [NUM a, OP ''-'', NUM b, EOF])) = py_sub rt a b"
  by (cases "py_sub rt a b") (simp_all add: parse_eval Let_def)

lemma returned_mul:
  "returned (parse_expr rt (TokenStream_init [NUM a, OP ''*'', NUM b, EOF])) = py_mul rt a b"
  by (cases "py_mul rt a b") (simp_all add: parse_eval Let_def apply_mul_op_def)

lemma returned_pow:
  "returned (parse_expr rt (TokenStream_init [NUM a, OP ''**'', NUM b, EOF])) = py_pow rt a b"
  by (cases "py_pow rt a b") (simp_all add: parse_eval Let_def)

lemma returned_pow_minus:
  "returned (parse_expr rt (TokenStream_init [NUM a, OP ''**'', OP ''-'', NUM b, EOF])) =
     py_pow rt a (py_neg rt b)"
  by (cases "py_pow rt a (py_neg rt b)") (simp_all add: parse_eval Let_def)

lemma returned_neg:
  "returned (parse_expr rt (TokenStream_init [OP ''-'', NUM a, EOF])) = Inr (py_neg rt a)"
  by (simp add: parse_eval Let_def)

lemma returned_pos:
  "returned (parse_expr rt (TokenStream_init [OP ''+'', NUM a, EOF])) = Inr (py_pos rt a)"
  by (simp add: parse_eval Let_def)


lemma calculate_int_examples:
  "calculate_expression rt ''2 + 3'' = Inr (IntV 5)"
  "calculate_expression rt ''2 - 3'' = Inr (IntV (- 1))"
  "calculate_expression rt ''2 * 3'' = Inr (IntV 6)"
  "calculate_expression rt ''-2'' = Inr (IntV (- 2))"
  "calculate_expression rt ''2 ** 3'' = Inr (IntV 8)"
  by (simp_all add: calc_eval)

lemma calculate_negative_exponent:
  "calculate_expression rt ''2 ** -1'' = py_pow rt (IntV 2) (IntV (- 1))"
  by (cases "py_pow rt (IntV 2) (IntV (- 1))") (simp_all add: calc_eval del: py_pow.simps)

lemma calculate_int_plus_float:
  "calculate_expression rt ''2 + 0.5'' =
     py_add rt (IntV 2) (FloatV (float_of_decimal rt ''0.5''))"
  by (cases "py_add rt (IntV 2) (FloatV (float_of_decimal rt ''0.5''))")
     (simp_all add: calculate_expression_def tokenize_eval parse_eval)

text \<open>
  Claim C4 says that \<^verbatim>\<open>+\<close>, \<^verbatim>\<open>-\<close> and \<^verbatim>\<open>**\<close> promote as \<^verbatim>\<open>*\<close> does, and in particular that
  \<^verbatim>\<open>a ** b\<close> is an integer for all integers \<open>a\<close> and \<open>b\<close>. \<^verbatim>\<open>parse_pow\<close> returns Python's
  \<^verbatim>\<open>left ** right\<close>, which computes an integer power with a negative exponent in
  floats: \<^verbatim>\<open>2 ** -1\<close> is the float 0.5.
\<close>

theorem int_power_negative_exponent_counterexample:
  "calculate_expression py64 ''2 ** -1'' = Inr (FloatV (Finite False (2 ^ 52) (- 53)))
   \<and> \<not> is_int (FloatV (Finite False (2 ^ 52) (- 53)) :: (f64, f64 \<times> f64) pyval)"
  by (simp add: calc_eval py64_eval)

text \<open>
  Claim C4, amended. What \<^verbatim>\<open>parse_expr\<close> returns on the tokens of \<^verbatim>\<open>a + b\<close>, \<^verbatim>\<open>a - b\<close>,
  \<^verbatim>\<open>a * b\<close>, \<^verbatim>\<open>+a\<close> and \<^verbatim>\<open>-a\<close>: two integers give the exact integer result; a float
  operand gives a float, where an integer operand beside a float is converted first,
  which raises \<^verbatim>\<open>OverflowError\<close> when it is too large for a float. On the tokens of
  \<^verbatim>\<open>a ** b\<close>: two integers with an exponent \<open>y \<ge> 0\<close> give the integer \<open>x ^ y\<close>; two
  integers with a negative exponent, as a value or written with its sign (\<^verbatim>\<open>x ** -y\<close>),
  never give an integer; and with a float operand the result is never an integer.
  On every runtime \<^verbatim>\<open>2 + 3\<close>, \<^verbatim>\<open>2 - 3\<close>, \<^verbatim>\<open>2 * 3\<close>, \<^verbatim>\<open>-2\<close> and \<^verbatim>\<open>2 ** 3\<close> are the integers
  5, -1, 6, -2 and 8, \<^verbatim>\<open>2 ** -1\<close> is no integer, and \<^verbatim>\<open>2 + 0.5\<close> is a float (or the
  \<^verbatim>\<open>OverflowError\<close> of a runtime whose floats do not reach 2).
\<close>

theorem numeric_promotion:
  "returned (parse_expr rt (TokenStream_init [NUM (IntV x), OP ''+'', NUM (IntV y), EOF]))
     = Inr (IntV (x + y))
   \<and> returned (parse_expr rt (TokenStream_init [NUM (IntV x), OP ''-'', NUM (IntV y), EOF]))
     = Inr (IntV (x - y))
   \<and> returned (parse_expr rt (TokenStream_init [NUM (IntV x), OP ''*'', NUM (IntV y), EOF]))
     = Inr (IntV (x * y))
   \<and> returned (parse_expr rt (TokenStream_init [OP ''+'', NUM (IntV x), EOF])) = Inr (IntV x)
   \<and> returned (parse_expr rt (TokenStream_init [OP ''-'', NUM (IntV x), EOF])) = Inr (IntV (- x))
   \<and> yields is_float (returned (parse_expr rt (TokenStream_init [OP ''+'', NUM (FloatV f), EOF])))
   \<and> yields is_float (returned (parse_expr rt (TokenStream_init [OP ''-'', NUM (FloatV f), EOF])))
   \<and> yields is_float
       (returned (parse_expr rt (TokenStream_init [NUM (FloatV f), OP ''+'', NUM (FloatV g), EOF])))
   \<and> yields is_float
       (returned (parse_expr rt (TokenStream_init [NUM (FloatV f), OP ''-'', NUM (FloatV g), EOF])))
   \<and> yields is_float
       (returned (parse_expr rt (TokenStream_init [NUM (FloatV f), OP ''*'', NUM (FloatV g), EOF])))
   \<and> float_or_overflow
       (returned (parse_expr rt (TokenStream_init [NUM (IntV x), OP ''+'', NUM (FloatV g), EOF])))
   \<and> float_or_overflow
       (returned (parse_expr rt (TokenStream_init [NUM (IntV x), OP ''-'', NUM (FloatV g), EOF])))
   \<and> float_or_overflow
       (returned (parse_expr rt (TokenStream_init [NUM (IntV x), OP ''*'', NUM (FloatV g), EOF])))
   \<and> float_or_overflow
       (returned (parse_expr rt (TokenStream_init [NUM (FloatV f), OP ''+'', NUM (IntV y), EOF])))
   \<and> float_or_overflow
       (returned (parse_expr rt (TokenStream_init [NUM (FloatV f), OP ''-'', NUM (IntV y), EOF])))
   \<and> float_or_overflow
       (returned (parse_expr rt (TokenStream_init [NUM (FloatV f), OP ''*'', NUM (IntV y), EOF])))
   \<and> (0 \<le> y \<longrightarrow>
        returned (parse_expr rt (TokenStream_init [NUM (IntV x), OP ''**'', NUM (IntV y), EOF]))
          = Inr (IntV (x ^ nat y)))
   \<and> (y < 0 \<longrightarrow>
        \<not> yields is_int
          (returned (parse_expr rt (TokenStream_init [NUM (IntV x), OP ''**'', NUM (IntV y), EOF]))))
   \<and> (0 < y \<longrightarrow>
        \<not> yields is_int
          (returned (parse_expr rt
             (TokenStream_init [NUM (IntV x), OP ''**'', OP ''-'', NUM (IntV y), EOF]))))
   \<and> \<not> yields is_int
       (returned (parse_expr rt (TokenStream_init [NUM (IntV x), OP ''**'', NUM (FloatV g), EOF])))
   \<and> \<not> yields is_int
       (returned (parse_expr rt (TokenStream_init [NUM (FloatV f), OP ''**'', NUM (IntV y), EOF])))
   \<and> \<not> yields is_int
       (returned (parse_expr rt (TokenStream_init [NUM (FloatV f), OP ''**'', NUM (FloatV g), EOF])))
   \<and> calculate_expression rt ''2 + 3'' = Inr (IntV 5)
   \<and> calculate_expression rt ''2 - 3'' = Inr (IntV (- 1))
   \<and> calculate_expression rt ''2 * 3'' = Inr (IntV 6)
   \<and> calculate_expression rt ''-2'' = Inr (IntV (- 2))
   \<and> calculate_expression rt ''2 ** 3'' = Inr (IntV 8)
   \<and> \<not> yields is_int (calculate_expression rt ''2 ** -1'')
   \<and> float_or_overflow (calculate_expression rt ''2 + 0.5'')"
  unfolding returned_add returned_sub returned_mul returned_pow returned_pow_minus
    returned_neg returned_pos calculate_int_examples calculate_negative_exponent
    calculate_int_plus_float py_add_def py_sub_def py_mul_def
  by (intro conjI impI py_arith_int py_arith_float)
     (simp_all add: py_float_pow_not_int del: py_float_pow.simps as_float.simps)

text \<open>
  On the reference runtime: the tokens of \<^verbatim>\<open>2 ** 3\<close> give the integer 8, those of
  \<^verbatim>\<open>2 ** -1\<close> the float 0.5.
\<close>

theorem numeric_promotion_witness:
  "(0::int) \<le> 3
   \<and> returned (parse_expr py64 (TokenStream_init [NUM (IntV 2), OP ''**'', NUM (IntV 3), EOF]))
     = Inr (IntV 8)
   \<and> (- 1 :: int) < 0
   \<and> \<not> yields is_int
       (returned (parse_expr py64 (TokenStream_init [NUM (IntV 2), OP ''**'', NUM (IntV (- 1)), EOF])))
   \<and> (0::int) < 1
   \<and> \<not> yields is_int
       (returned (parse_expr py64
          (TokenStream_init [NUM (IntV 2), OP ''**'', OP ''-'', NUM (IntV 1), EOF])))
   \<and> returned (parse_expr py64
          (TokenStream_init [NUM (IntV 2), OP ''**'', OP ''-'', NUM (IntV 1), EOF]))
     = Inr (FloatV (Finite False (2 ^ 52) (- 53)))"
proof -
  have "returned (parse_expr py64
          (TokenStream_init [NUM (IntV 2), OP ''**'', OP ''-'', NUM (IntV 1), EOF]))
     = Inr (FloatV (Finite False (2 ^ 52) (- 53)))"
    by (simp add: parse_eval Let_def py64_eval)
  with numeric_promotion [where rt = py64 and x = 2 and y = 3]
    numeric_promotion [where rt = py64 and x = 2 and y = "- 1"]
    numeric_promotion [where rt = py64 and x = 2 and y = 1]
  show ?thesis by simp
qed

section \<open>True division\<close>




section \<open>Termination of the tokenizer\<close>

text \<open>
  The loop of \<^verbatim>\<open>tokenize\<close> with a bound on the number of iterations: \<open>None\<close> when the
  bound is reached before the loop has ended.
\<close>

fun tokenize_bounded ::
  "nat \<Rightarrow> ('f, 'c) runtime \<Rightarrow> string \<Rightarrow> nat \<Rightarrow> ('f, 'c) token list \<Rightarrow>
   (error + ('f, 'c) token list) option" where
  "tokenize_bounded 0 rt expression i toks =
     (if i < length expression then None else Some (Inr toks))"
| "tokenize_bounded (Suc k) rt expression i toks =
     (if i < length expression then
        (case scan_token rt expression i of
           Inl e \<Rightarrow> Some (Inl e)
         | Inr (tok, j) \<Rightarrow> tokenize_bounded k rt expression j (append_token toks tok))
      else Some (Inr toks))"

fun is_parse_error :: "error \<Rightarrow> bool" where
  "is_parse_error (ParseError m) = True"
| "is_parse_error (EvalError m) = False"
| "is_parse_error (Uncaught e) = False"

lemma scan_token_error:
  "scan_token rt expression i = Inl e \<Longrightarrow> is_parse_error e"
  by (auto simp: scan_token_def Let_def split: if_splits option.splits)

lemma tokenize_bounded_enough:
  "length expression - i \<le> k \<Longrightarrow>
   tokenize_bounded k rt expression i toks = Some (tokenize_loop rt expression i toks)"
proof (induction k arbitrary: i toks)
  case 0
  then show ?case by (simp add: tokenize_loop.simps)
next
  case (Suc k)
  show ?case
  proof (cases "i < length expression")
    case False
    then show ?thesis by (simp add: tokenize_loop.simps)
  next
    case True
    show ?thesis
    proof (cases "scan_token rt expression i")
      case (Inl e)
      with True show ?thesis by (simp add: tokenize_loop.simps [of rt expression i])
    next
      case (Inr p)
      obtain tok j where p: "p = (tok, j)" by (cases p)
      from scan_token_advances [OF True Inr [unfolded p]] Suc.prems
      have "length expression - j \<le> k" by arith
      from Suc.IH [OF this] True Inr p show ?thesis
        by (simp add: tokenize_loop.simps [of rt expression i])
    qed
  qed
qed

text \<open>
  Claim C10. \<^verbatim>\<open>tokenize\<close> terminates on every input. An iteration of its loop that
  starts at an index \<open>i\<close> inside the input raises \<^verbatim>\<open>ParseError\<close> or moves the index
  forward by at least one and not beyond the end; so the loop bounded to as many
  iterations as the input has characters ends with the result of the unbounded
  loop; and \<^verbatim>\<open>tokenize\<close>, a total function, returns a \<^verbatim>\<open>ParseError\<close> or a token list
  that ends with \<^verbatim>\<open>EOF\<close>.
\<close>

theorem tokenize_terminates:
  "(i < length expression \<longrightarrow>
      (case scan_token rt expression i of
         Inl e \<Rightarrow> is_parse_error e
       | Inr (tok, j) \<Rightarrow> i < j \<and> j \<le> length expression))
   \<and> tokenize_bounded (length expression) rt expression 0 [] =
       Some (tokenize_loop rt expression 0 [])
   \<and> (case tokenize rt expression of
         Inl e \<Rightarrow> is_parse_error e
       | Inr toks \<Rightarrow> toks \<noteq> [] \<and> last toks = EOF)"
proof (intro conjI impI)
  assume "i < length expression"
  then show "case scan_token rt expression i of
      Inl e \<Rightarrow> is_parse_error e
    | Inr (tok, j) \<Rightarrow> i < j \<and> j \<le> length expression"
    using scan_token_advances [of i expression rt] scan_token_error [of rt expression i]
    by (auto split: sum.splits)
next
  show "tokenize_bounded (length expression) rt expression 0 [] =
      Some (tokenize_loop rt expression 0 [])"
    by (rule tokenize_bounded_enough) simp
next
  have "tokenize_loop rt expression i toks = Inl e \<Longrightarrow> is_parse_error e"
    for i toks e
  proof (induction rt expression i toks rule: tokenize_loop.induct)
    case (1 rt expression i toks)
    then show ?case
      by (subst (asm) (2) tokenize_loop.simps)
         (auto split: if_splits sum.splits dest: scan_token_error)
  qed
  then show "case tokenize rt expression of
      Inl e \<Rightarrow> is_parse_error e
    | Inr toks \<Rightarrow> toks \<noteq> [] \<and> last toks = EOF"
    by (auto simp: tokenize_def split: sum.splits)
qed

text \<open>
  On \<^verbatim>\<open>2 ** 3\<close>: the iteration at index 2 reads the two characters of \<^verbatim>\<open>**\<close>, and six
  iterations are enough for the six characters.
\<close>

theorem tokenize_terminates_witness:
  "(1::nat) < length ''2 ** 3''
   \<and> scan_token py64 ''2 ** 3'' 2 = Inr (Some (OP ''**''), 4)
   \<and> tokenize_bounded (length ''2 ** 3'') py64 ''2 ** 3'' 0 [] =
       Some (Inr [NUM (IntV 2), OP ''**'', NUM (IntV 3)])
   \<and> tokenize py64 ''2 ** 3'' = Inr [NUM (IntV 2), OP ''**'', NUM (IntV 3), EOF]"
proof -
  have l: "tokenize_loop py64 ''2 ** 3'' 0 [] = Inr [NUM (IntV 2), OP ''**'', NUM (IntV 3)]"
    by (simp add: tokenize_eval)
  have t: "tokenize py64 ''2 ** 3'' = Inr [NUM (IntV 2), OP ''**'', NUM (IntV 3), EOF]"
    by (simp add: tokenize_eval)
  have s: "scan_token py64 ''2 ** 3'' 2 = Inr (Some (OP ''**''), 4)"
    by (simp add: tokenize_eval)
  from tokenize_terminates [of 2 "''2 ** 3''" py64] l t s show ?thesis
    by (simp del: tokenize_bounded.simps)
qed

end
